theory Spec2Isabelle
  imports Complex_Main "HOL-Library.AList" "HOL-Library.Char_ord" "HOL-Library.List_Lexorder"
begin

section \<open>Python values and errors\<close>

text \<open>
  The module \<^verbatim>\<open>task_set/tasks/utils.py\<close> samples task configurations from a
  \<^verbatim>\<open>np.random.RandomState\<close> and turns them back into runtime objects. Configurations are
  plain nested Python data. The arithmetic of Python floats is idealised as that of the
  real numbers: \<^verbatim>\<open>np.log\<close> is \<open>ln\<close>, \<^verbatim>\<open>np.exp\<close> is \<open>exp\<close>, comparisons are exact, and
  the rounding of IEEE operations is not modelled. The one rounding that is modelled is
  that of the conversion \<^verbatim>\<open>float(n)\<close> of an integer in \<^verbatim>\<open>sample_linear_int\<close> (see
  \<open>py_float\<close> below), where integers beyond \<open>2^53\<close> lose their low bits.
\<close>

datatype py_error = ValueError | KeyError | TypeError | IndexError | OverflowError

datatype pyval =
    PNone
  | PBool bool
  | PInt int
  | PFloat real
  | PStr string
  | PList "pyval list"
  | PDict "(string \<times> pyval) list"

text \<open>Python's truth value of an object, as tested by \<^verbatim>\<open>if x\<close>.\<close>

fun truthy :: "pyval \<Rightarrow> bool" where
  "truthy PNone = False"
| "truthy (PBool b) = b"
| "truthy (PInt n) = (n \<noteq> 0)"
| "truthy (PFloat x) = (x \<noteq> 0)"
| "truthy (PStr s) = (s \<noteq> [])"
| "truthy (PList xs) = (xs \<noteq> [])"
| "truthy (PDict kvs) = (kvs \<noteq> [])"

text \<open>Subscription \<^verbatim>\<open>d[k]\<close> of a dictionary raises \<^verbatim>\<open>KeyError\<close> on a missing key.\<close>

definition getitem :: "('k \<times> 'v) list \<Rightarrow> 'k \<Rightarrow> py_error + 'v" where
  "getitem d k = (case map_of d k of None \<Rightarrow> Inl KeyError | Some v \<Rightarrow> Inr v)"

section \<open>The random source\<close>

text \<open>
  A \<^verbatim>\<open>RandomState\<close> is a stream of raw variates of the unit interval \<open>[0, 1)\<close>; every call
  consumes the head of the stream and returns the advanced state with its result.
  \<^verbatim>\<open>rng.uniform(low, high)\<close> scales the variate, \<^verbatim>\<open>rng.choice(xs)\<close> picks the element
  at the index the variate falls on, and \<^verbatim>\<open>rng.choice(xs, p=probs)\<close> inverts the cumulative
  distribution of \<open>probs\<close> (numpy's \<^verbatim>\<open>cdf.searchsorted(u, side='right')\<close>).
\<close>

type_synonym rng = "nat \<Rightarrow> real"

definition rng_ok :: "rng \<Rightarrow> bool" where
  "rng_ok r = (\<forall>i. 0 \<le> r i \<and> r i < 1)"

definition next_draw :: "rng \<Rightarrow> real \<times> rng" where
  "next_draw r = (r 0, \<lambda>i. r (Suc i))"

definition uniform :: "rng \<Rightarrow> real \<Rightarrow> real \<Rightarrow> real \<times> rng" where
  "uniform r low high = (case next_draw r of (u, r') \<Rightarrow> (low + (high - low) * u, r'))"

definition choice :: "rng \<Rightarrow> 'a list \<Rightarrow> 'a \<times> rng" where
  "choice r xs = (case next_draw r of (u, r') \<Rightarrow> (xs ! nat \<lfloor>u * real (length xs)\<rfloor>, r'))"

fun cumsum :: "real \<Rightarrow> real list \<Rightarrow> real list" where
  "cumsum acc [] = []"
| "cumsum acc (p # ps) = (acc + p) # cumsum (acc + p) ps"

definition searchsorted_right :: "real list \<Rightarrow> real \<Rightarrow> nat" where
  "searchsorted_right cdf u = length (takeWhile (\<lambda>c. c \<le> u) cdf)"

definition choice_p :: "rng \<Rightarrow> 'a list \<Rightarrow> real list \<Rightarrow> 'a \<times> rng" where
  "choice_p r xs probs =
     (case next_draw r of (u, r') \<Rightarrow>
        (let cdf = cumsum 0 probs;
             cdf' = map (\<lambda>c. c / last cdf) cdf
         in (xs ! searchsorted_right cdf' u, r')))"

section \<open>Scalar samplers\<close>

text \<open>
  \<^verbatim>\<open>int(np.round(x))\<close>: numpy rounds to the nearest integer and a tie to the even
  neighbour.
\<close>

definition np_round :: "real \<Rightarrow> int" where
  "np_round x =
     (let f = \<lfloor>x\<rfloor>; d = x - of_int f
      in if d < 1/2 then f else if 1/2 < d then f + 1 else if even f then f else f + 1)"

definition sample_log_int :: "rng \<Rightarrow> int \<Rightarrow> int \<Rightarrow> int \<times> rng" where
  "sample_log_int rng low high =
     (case uniform rng (ln (of_int low)) (ln (of_int high)) of
        (sample, rng') \<Rightarrow> (np_round (exp sample), rng'))"

text \<open>
  \<^verbatim>\<open>float(n)\<close> of a Python integer: the nearest IEEE double, a tie going to the even
  significand, and \<^verbatim>\<open>OverflowError\<close> when that is beyond the largest double. A double has
  53 significant bits: \<open>excess_bits m\<close> is the number of low bits of \<open>m\<close> that do not fit,
  and \<open>round_half_even_div n q\<close> is \<open>n / q\<close> rounded to the nearest integer.
\<close>

function excess_bits :: "nat \<Rightarrow> nat" where
  "excess_bits m = (if m < 2 ^ 53 then 0 else Suc (excess_bits (m div 2)))"
  by pat_completeness auto
termination
  by (relation "measure (\<lambda>m. m)") auto

definition round_half_even_div :: "int \<Rightarrow> int \<Rightarrow> int" where
  "round_half_even_div n q =
     (let d = n div q; r = n mod q
      in if 2 * r < q then d else if q < 2 * r then d + 1 else if even d then d else d + 1)"

definition py_float :: "int \<Rightarrow> py_error + real" where
  "py_float n =
     (let q = 2 ^ excess_bits (nat \<bar>n\<bar>);
          v = q * round_half_even_div n q
      in if 2 ^ 1024 \<le> \<bar>v\<bar> then Inl OverflowError else Inr (of_int v))"

definition sample_linear_int :: "rng \<Rightarrow> int \<Rightarrow> int \<Rightarrow> py_error + (int \<times> rng)" where
  "sample_linear_int rng low high =
     (case py_float low of
        Inl e \<Rightarrow> Inl e
      | Inr flow \<Rightarrow>
          (case py_float high of
             Inl e \<Rightarrow> Inl e
           | Inr fhigh \<Rightarrow>
               (case uniform rng flow fhigh of
                  (sample, rng') \<Rightarrow> Inr (np_round sample, rng'))))"

definition sample_log_float :: "rng \<Rightarrow> real \<Rightarrow> real \<Rightarrow> real \<times> rng" where
  "sample_log_float rng low high =
     (case uniform rng (ln low) (ln high) of (sample, rng') \<Rightarrow> (exp sample, rng'))"

definition sample_bool :: "rng \<Rightarrow> real \<Rightarrow> py_error + (bool \<times> rng)" where
  "sample_bool rng p =
     (if \<not> (0 \<le> p \<and> p \<le> 1) then Inl ValueError
      else case uniform rng 0 1 of (u, rng') \<Rightarrow> Inr (u < p, rng'))"

section \<open>Errors in sequence\<close>

text \<open>An exception ends the computation: the rest runs only on a result.\<close>

definition bindE :: "py_error + 'a \<Rightarrow> ('a \<Rightarrow> py_error + 'b) \<Rightarrow> py_error + 'b" where
  "bindE m f = (case m of Inl e \<Rightarrow> Inl e | Inr x \<Rightarrow> f x)"

section \<open>Activations\<close>

datatype activation_fn =
    tf_nn_relu
  | tf_tanh
  | tf_cos
  | tf_nn_elu
  | tf_nn_sigmoid
  | swish
  | leaky_relu real

definition activation_fn_map :: "(string \<times> (nat \<times> activation_fn)) list" where
  "activation_fn_map =
     [(''relu'', (6, tf_nn_relu)),
      (''tanh'', (3, tf_tanh)),
      (''cos'', (1, tf_cos)),
      (''elu'', (1, tf_nn_elu)),
      (''sigmoid'', (1, tf_nn_sigmoid)),
      (''swish'', (1, swish)),
      (''leaky_relu4'', (1, leaky_relu (4/10))),
      (''leaky_relu2'', (1, leaky_relu (2/10))),
      (''leaky_relu1'', (1, leaky_relu (1/10)))]"

text \<open>\<^verbatim>\<open>weights / np.sum(weights)\<close>\<close>

definition normalize :: "nat list \<Rightarrow> real list" where
  "normalize weights = map (\<lambda>w. real w / real (sum_list weights)) weights"

definition sample_activation :: "rng \<Rightarrow> string \<times> rng" where
  "sample_activation rng =
     (let items = sort_key fst activation_fn_map;
          names = map fst items;
          weights = map (\<lambda>(_, (w, _)). w) items;
          probs = normalize weights
      in choice_p rng names probs)"

definition get_activation :: "string \<Rightarrow> py_error + activation_fn" where
  "get_activation name = bindE (getitem activation_fn_map name) (\<lambda>(_, fn). Inr fn)"

section \<open>Initializers\<close>

text \<open>
  A TensorFlow initializer object is recorded as the application that made it: the
  constructor of \<^verbatim>\<open>tf.initializers\<close>, its positional and its keyword arguments.
\<close>

datatype tf_ctor =
    he_normal
  | he_uniform
  | glorot_normal
  | glorot_uniform
  | orthogonal
  | random_uniform
  | random_normal
  | variance_scaling

datatype tf_initializer = Initializer tf_ctor "real list" "(string \<times> real) list"

text \<open>
  The third component of a catalog entry is called with one positional argument or with
  none. A constructor of \<^verbatim>\<open>tf.initializers\<close> has a default for every parameter; a
  \<^verbatim>\<open>lambda s: ...\<close> needs its one argument and raises \<^verbatim>\<open>TypeError\<close> without it.
\<close>

type_synonym make_fn = "real list \<Rightarrow> py_error + tf_initializer"

definition tf_initializers :: "tf_ctor \<Rightarrow> make_fn" where
  "tf_initializers c args = Inr (Initializer c args [])"

definition lambda_random_uniform :: make_fn where
  "lambda_random_uniform args =
     (case args of [s] \<Rightarrow> Inr (Initializer random_uniform [- s, s] []) | _ \<Rightarrow> Inl TypeError)"

definition lambda_random_normal :: make_fn where
  "lambda_random_normal args =
     (case args of [s] \<Rightarrow> Inr (Initializer random_normal [] [(''stddev'', s)])
      | _ \<Rightarrow> Inl TypeError)"

type_synonym sample_fn = "rng \<Rightarrow> real \<times> rng"

definition initializer_name_map :: "(string \<times> (nat \<times> sample_fn option \<times> make_fn)) list" where
  "initializer_name_map =
     [(''he_normal'', (2, None, tf_initializers he_normal)),
      (''he_uniform'', (2, None, tf_initializers he_uniform)),
      (''glorot_normal'', (2, None, tf_initializers glorot_normal)),
      (''glorot_uniform'', (2, None, tf_initializers glorot_uniform)),
      (''orthogonal'', (1, Some (\<lambda>rng. sample_log_float rng (1/10) 10),
                        tf_initializers orthogonal)),
      (''random_uniform'', (1, Some (\<lambda>rng. sample_log_float rng (1/10) 10),
                            lambda_random_uniform)),
      (''random_normal'', (1, Some (\<lambda>rng. sample_log_float rng (1/10) 10),
                           lambda_random_normal)),
      (''truncated_normal'', (1, Some (\<lambda>rng. sample_log_float rng (1/10) 10),
                              lambda_random_normal)),
      (''variance_scaling'', (1, Some (\<lambda>rng. sample_log_float rng (1/10) 10),
                              tf_initializers variance_scaling))]"

type_synonym InitializerConfig = "string \<times> real option"

definition sample_initializer :: "rng \<Rightarrow> py_error + (InitializerConfig \<times> rng)" where
  "sample_initializer rng =
     (let items = sort_key fst initializer_name_map;
          names = map fst items;
          weights = map (\<lambda>(_, (w, _, _)). w) items;
          probs = normalize weights
      in case choice_p rng names probs of
           (name, rng1) \<Rightarrow>
             bindE (getitem initializer_name_map name)
               (\<lambda>(_, sample_fn, _).
                  case sample_fn of
                    None \<Rightarrow> Inr ((name, None), rng1)
                  | Some f \<Rightarrow> (case f rng1 of (x, rng2) \<Rightarrow> Inr ((name, Some x), rng2))))"

text \<open>
  \<^verbatim>\<open>make_fn(arg) if arg else make_fn()\<close>: the test is the truth value of \<open>arg\<close>, so
  \<^verbatim>\<open>None\<close> and \<^verbatim>\<open>0.0\<close> both take the branch without argument.
\<close>

definition get_initializer :: "InitializerConfig \<Rightarrow> py_error + tf_initializer" where
  "get_initializer cfg =
     (case cfg of
        (name, arg) \<Rightarrow>
          bindE (getitem initializer_name_map name)
            (\<lambda>(_, _, make_fn).
               case arg of
                 None \<Rightarrow> make_fn []
               | Some s \<Rightarrow> if s \<noteq> 0 then make_fn [s] else make_fn []))"

section \<open>Recurrent cores\<close>

text \<open>
  The parameter mapping of a core holds initializer configs, an activation name and the
  hidden dimension.
\<close>

datatype arg_value = AInit InitializerConfig | AStr string | AInt int

type_synonym RNNCoreConfig = "string \<times> (string \<times> arg_value) list"

text \<open>
  \<^verbatim>\<open>for init_key in keys: args[init_key] = init\<close> and
  \<^verbatim>\<open>for init_key in keys: args[init_key] = sample_initializer(rng)\<close>
\<close>

fun assign_all :: "string list \<Rightarrow> arg_value \<Rightarrow> (string \<times> arg_value) list \<Rightarrow> (string \<times> arg_value) list" where
  "assign_all [] v args = args"
| "assign_all (k # ks) v args = assign_all ks v (AList.update k v args)"

fun sample_all :: "string list \<Rightarrow> (string \<times> arg_value) list \<Rightarrow> rng \<Rightarrow> py_error + ((string \<times> arg_value) list \<times> rng)" where
  "sample_all [] args rng = Inr (args, rng)"
| "sample_all (k # ks) args rng =
     (case sample_initializer rng of
        Inl e \<Rightarrow> Inl e
      | Inr (init, rng') \<Rightarrow> sample_all ks (AList.update k (AInit init) args) rng')"

definition gru_keys :: "string list" where
  "gru_keys = [''wh'', ''wz'', ''wr'', ''uh'', ''uz'', ''ur'']"

definition sample_rnn_core :: "rng \<Rightarrow> py_error + (RNNCoreConfig \<times> rng)" where
  "sample_rnn_core rng =
     (case choice rng [''vrnn'', ''gru'', ''lstm''] of
        (core, rng1) \<Rightarrow>
     (case choice rng1 [True, True, True, True, False] of
        (linked, rng2) \<Rightarrow>
     if core = ''vrnn'' then
       bindE
         (if linked then
            bindE (sample_initializer rng2)
              (\<lambda>(init, r).
                 Inr (AList.update ''in_to_hidden'' (AInit init)
                        (AList.update ''hidden_to_hidden'' (AInit init) []), r))
          else
            bindE (sample_initializer rng2)
              (\<lambda>(h2h, r).
                 bindE (sample_initializer r)
                   (\<lambda>(i2h, r').
                      Inr (AList.update ''in_to_hidden'' (AInit i2h)
                             (AList.update ''hidden_to_hidden'' (AInit h2h) []), r'))))
         (\<lambda>(args, r).
            case sample_activation r of
              (act, r') \<Rightarrow>
                (case sample_log_int r' 32 128 of
                   (core_dim, r'') \<Rightarrow>
                     Inr ((core, AList.update ''core_dim'' (AInt core_dim)
                                   (AList.update ''act_fn'' (AStr act) args)), r'')))
     else if core = ''gru'' then
       (case sample_log_int rng2 32 128 of
          (core_dim, r) \<Rightarrow>
            (let args = AList.update ''core_dim'' (AInt core_dim) [] in
             if linked then
               bindE (sample_initializer r)
                 (\<lambda>(init, r'). Inr ((core, assign_all gru_keys (AInit init) args), r'))
             else
               bindE (sample_all gru_keys args r)
                 (\<lambda>(args', r'). Inr ((core, args'), r'))))
     else if core = ''lstm'' then
       bindE (sample_initializer rng2)
         (\<lambda>(init, r).
            case sample_log_int r 32 128 of
              (core_dim, r') \<Rightarrow>
                Inr ((core, AList.update ''core_dim'' (AInt core_dim)
                              (AList.update ''w_gates'' (AInit init) [])), r'))
     else Inr ((core, []), rng2)))"

text \<open>
  A Sonnet module is recorded as the application that made it. The value under
  \<^verbatim>\<open>"core_dim"\<close> is passed on as it is.
\<close>

datatype snt_module =
    LSTM arg_value "(string \<times> tf_initializer) list"
  | GRU arg_value "(string \<times> tf_initializer) list"
  | VanillaRNN arg_value "(string \<times> (string \<times> tf_initializer) list) list" activation_fn

text \<open>
  \<^verbatim>\<open>name, arg = cfg\<close> inside \<^verbatim>\<open>get_initializer\<close>, on a value of the parameter mapping:
  an integer cannot be unpacked, a string unpacks only when it has two characters, and
  then the one-character name is no key of the catalog.
\<close>

definition get_initializer_arg :: "arg_value \<Rightarrow> py_error + tf_initializer" where
  "get_initializer_arg v =
     (case v of
        AInit cfg \<Rightarrow> get_initializer cfg
      | AStr s \<Rightarrow> if length s = 2 then Inl KeyError else Inl ValueError
      | AInt n \<Rightarrow> Inl TypeError)"

definition get_activation_arg :: "arg_value \<Rightarrow> py_error + activation_fn" where
  "get_activation_arg v = (case v of AStr name \<Rightarrow> get_activation name | _ \<Rightarrow> Inl KeyError)"

fun get_all :: "string list \<Rightarrow> (string \<times> arg_value) list \<Rightarrow> (string \<times> tf_initializer) list \<Rightarrow> py_error + (string \<times> tf_initializer) list" where
  "get_all [] args init = Inr init"
| "get_all (k # ks) args init =
     (case bindE (getitem args k) get_initializer_arg of
        Inl e \<Rightarrow> Inl e
      | Inr i \<Rightarrow> get_all ks args (AList.update k i init))"

definition get_rnn_core :: "RNNCoreConfig \<Rightarrow> py_error + snt_module" where
  "get_rnn_core cfg =
     (case cfg of
        (name, args) \<Rightarrow>
          if name = ''lstm'' then
            bindE (bindE (getitem args ''w_gates'') get_initializer_arg)
              (\<lambda>w. bindE (getitem args ''core_dim'')
                 (\<lambda>core_dim. Inr (LSTM core_dim [(''w_gates'', w)])))
          else if name = ''gru'' then
            bindE (get_all gru_keys args [])
              (\<lambda>init. bindE (getitem args ''core_dim'') (\<lambda>core_dim. Inr (GRU core_dim init)))
          else if name = ''vrnn'' then
            bindE (bindE (getitem args ''in_to_hidden'') get_initializer_arg)
              (\<lambda>i2h. bindE (bindE (getitem args ''hidden_to_hidden'') get_initializer_arg)
                 (\<lambda>h2h. bindE (bindE (getitem args ''act_fn'') get_activation_arg)
                    (\<lambda>act_fn. bindE (getitem args ''core_dim'')
                       (\<lambda>core_dim. Inr (VanillaRNN core_dim
                                     [(''in_to_hidden'', [(''w'', i2h)]),
                                      (''hidden_to_hidden'', [(''w'', h2h)])] act_fn)))))
          else Inl ValueError)"

section \<open>Image augmentation\<close>

type_synonym AugmentationConfig = "(string \<times> pyval) list"

definition sample_augmentation :: "rng \<Rightarrow> AugmentationConfig \<times> rng" where
  "sample_augmentation rng =
     (case choice rng [0, 0, 0, 1, 2 :: int] of (crop_amount, r1) \<Rightarrow>
      case choice r1 [False, True] of (flip_left_right, r2) \<Rightarrow>
      case choice r2 [False, True] of (flip_up_down, r3) \<Rightarrow>
      case choice r3 [False, True] of (do_color_aug, r4) \<Rightarrow>
      case sample_log_float r4 (1/1000) (64/255) of (brightness, r5) \<Rightarrow>
      case sample_log_float r5 (1/100) 1 of (saturation, r6) \<Rightarrow>
      case sample_log_float r6 (1/100) (1/2) of (hue, r7) \<Rightarrow>
      case sample_log_float r7 (1/100) 1 of (contrast, r8) \<Rightarrow>
        ([(''crop_amount'', PInt crop_amount),
          (''flip_left_right'', PBool flip_left_right),
          (''flip_up_down'', PBool flip_up_down),
          (''do_color_aug'', PBool do_color_aug),
          (''brightness'', PFloat brightness),
          (''saturation'', PFloat saturation),
          (''hue'', PFloat hue),
          (''contrast'', PFloat contrast)], r8))"

text \<open>
  An example is a mutable dictionary from field names to objects, a tensor is an immutable
  object. Both live in a store addressed by position: a variable holds an address, a new
  object is put at the end of the store, and an assignment to a field replaces the
  dictionary at its address. So two variables alias when they hold the same address.
\<close>

datatype 'img obj = Tensor 'img | Example "(string \<times> nat) list"

type_synonym 'img heap = "'img obj list"

text \<open>A computation on the store that returns a value or raises.\<close>

type_synonym ('img, 'a) comp = "'img heap \<Rightarrow> 'img heap \<times> (py_error + 'a)"

definition ret :: "'a \<Rightarrow> ('img, 'a) comp" where
  "ret x h = (h, Inr x)"

definition liftE :: "py_error + 'a \<Rightarrow> ('img, 'a) comp" where
  "liftE r h = (h, r)"

definition bindH :: "('img, 'a) comp \<Rightarrow> ('a \<Rightarrow> ('img, 'b) comp) \<Rightarrow> ('img, 'b) comp" where
  "bindH m f h = (case m h of (h', Inl e) \<Rightarrow> (h', Inl e) | (h', Inr x) \<Rightarrow> f x h')"

definition read_example :: "nat \<Rightarrow> ('img, (string \<times> nat) list) comp" where
  "read_example a h =
     (h, if a < length h then (case h ! a of Example d \<Rightarrow> Inr d | Tensor t \<Rightarrow> Inl TypeError)
         else Inl TypeError)"

definition read_tensor :: "nat \<Rightarrow> ('img, 'img) comp" where
  "read_tensor a h =
     (h, if a < length h then (case h ! a of Tensor t \<Rightarrow> Inr t | Example d \<Rightarrow> Inl TypeError)
         else Inl TypeError)"

definition new_tensor :: "'img \<Rightarrow> ('img, nat) comp" where
  "new_tensor t h = (h @ [Tensor t], Inr (length h))"

text \<open>\<^verbatim>\<open>copy.copy(example)\<close>: a new dictionary with the same fields, holding the same objects.\<close>

definition copy_example :: "nat \<Rightarrow> ('img, nat) comp" where
  "copy_example a = bindH (read_example a) (\<lambda>d h. (h @ [Example d], Inr (length h)))"

text \<open>\<^verbatim>\<open>example[k] = v\<close>\<close>

definition setitem :: "nat \<Rightarrow> string \<Rightarrow> nat \<Rightarrow> ('img, unit) comp" where
  "setitem a k v =
     bindH (read_example a) (\<lambda>d h. (h[a := Example (AList.update k v d)], Inr ()))"

text \<open>
  The operations of \<^verbatim>\<open>tf.image\<close> and the static shape of a tensor belong to TensorFlow:
  they are parameters. \<^verbatim>\<open>img.shape.as_list()\<close> raises when the rank is unknown and
  gives \<^verbatim>\<open>None\<close> for an unknown dimension. An operation gives a new tensor or raises
  (\<^verbatim>\<open>tf.image.random_crop\<close> raises \<^verbatim>\<open>ValueError\<close> for a size the image does not have).
\<close>

record 'img tf_image =
  as_list :: "'img \<Rightarrow> py_error + int option list"
  random_crop :: "'img \<Rightarrow> pyval list \<Rightarrow> py_error + 'img"
  random_flip_left_right :: "'img \<Rightarrow> py_error + 'img"
  random_flip_up_down :: "'img \<Rightarrow> py_error + 'img"
  random_brightness :: "'img \<Rightarrow> pyval \<Rightarrow> py_error + 'img"
  random_saturation :: "'img \<Rightarrow> pyval \<Rightarrow> pyval \<Rightarrow> py_error + 'img"
  random_hue :: "'img \<Rightarrow> pyval \<Rightarrow> py_error + 'img"
  random_contrast :: "'img \<Rightarrow> pyval \<Rightarrow> pyval \<Rightarrow> py_error + 'img"

text \<open>
  \<^verbatim>\<open>img = op(img, ...)\<close>: the operation reads the tensor and, unless it raises, makes a
  new one.
\<close>

definition apply_op :: "('img \<Rightarrow> py_error + 'img) \<Rightarrow> nat \<Rightarrow> ('img, nat) comp" where
  "apply_op f img = bindH (read_tensor img) (\<lambda>t. bindH (liftE (f t)) new_tensor)"

text \<open>\<^verbatim>\<open>xs[i]\<close> on a list.\<close>

definition index :: "'a list \<Rightarrow> nat \<Rightarrow> py_error + 'a" where
  "index xs i = (if i < length xs then Inr (xs ! i) else Inl IndexError)"

definition dim_value :: "int option \<Rightarrow> pyval" where
  "dim_value d = (case d of None \<Rightarrow> PNone | Some n \<Rightarrow> PInt n)"

text \<open>\<^verbatim>\<open>height - cfg["crop_amount"]\<close> with \<open>height\<close> an integer or \<^verbatim>\<open>None\<close>.\<close>

fun dim_minus :: "int option \<Rightarrow> pyval \<Rightarrow> py_error + pyval" where
  "dim_minus (Some n) (PInt c) = Inr (PInt (n - c))"
| "dim_minus (Some n) (PBool b) = Inr (PInt (n - (if b then 1 else 0)))"
| "dim_minus (Some n) (PFloat x) = Inr (PFloat (of_int n - x))"
| "dim_minus _ _ = Inl TypeError"

text \<open>\<^verbatim>\<open>1.0 - x\<close> and \<^verbatim>\<open>1.0 + x\<close>\<close>

fun as_float :: "pyval \<Rightarrow> py_error + real" where
  "as_float (PInt n) = Inr (of_int n)"
| "as_float (PBool b) = Inr (if b then 1 else 0)"
| "as_float (PFloat x) = Inr x"
| "as_float _ = Inl TypeError"

definition one_minus :: "pyval \<Rightarrow> py_error + pyval" where
  "one_minus v = bindE (as_float v) (\<lambda>x. Inr (PFloat (1 - x)))"

definition one_plus :: "pyval \<Rightarrow> py_error + pyval" where
  "one_plus v = bindE (as_float v) (\<lambda>x. Inr (PFloat (1 + x)))"

text \<open>
  The statements of \<^verbatim>\<open>augment\<close> between the reading of \<^verbatim>\<open>example["image"]\<close> and the
  copy: \<open>img\<close> is the address the variable \<^verbatim>\<open>img\<close> holds at first and \<open>t\<close> the tensor
  there, whose shape is read; the result is the address the variable holds at the end.
  \<^verbatim>\<open>cfg["crop_amount"]\<close> is read once here; the source reads it three times from the
  same mapping.
\<close>

definition augmentations :: "'img tf_image \<Rightarrow> AugmentationConfig \<Rightarrow> nat \<Rightarrow> 'img \<Rightarrow> ('img, nat) comp" where
  "augmentations tf cfg img t =
     bindH (liftE (bindE (as_list tf t) (\<lambda>dims. index dims 2))) (\<lambda>channels.
     bindH (liftE (getitem cfg ''crop_amount'')) (\<lambda>crop.
     bindH (if truthy crop then
              bindH (liftE (bindE (as_list tf t) (\<lambda>dims. index dims 0))) (\<lambda>height.
              bindH (liftE (bindE (as_list tf t) (\<lambda>dims. index dims 1))) (\<lambda>width.
              bindH (liftE (dim_minus height crop)) (\<lambda>h'.
              bindH (liftE (dim_minus width crop)) (\<lambda>w'.
                apply_op (\<lambda>t. random_crop tf t [h', w', dim_value channels]) img))))
            else ret img) (\<lambda>img.
     bindH (liftE (getitem cfg ''flip_left_right'')) (\<lambda>flip_lr.
     bindH (if truthy flip_lr then apply_op (random_flip_left_right tf) img else ret img) (\<lambda>img.
     bindH (liftE (getitem cfg ''flip_up_down'')) (\<lambda>flip_ud.
     bindH (if truthy flip_ud then apply_op (random_flip_up_down tf) img else ret img) (\<lambda>img.
     bindH (liftE (getitem cfg ''do_color_aug'')) (\<lambda>do_color_aug.
       if truthy do_color_aug \<and> channels = Some 3 then
         bindH (liftE (getitem cfg ''brightness'')) (\<lambda>brightness.
         bindH (apply_op (\<lambda>t. random_brightness tf t brightness) img) (\<lambda>img.
         bindH (liftE (bindE (getitem cfg ''saturation'') one_minus)) (\<lambda>lower.
         bindH (liftE (bindE (getitem cfg ''saturation'') one_plus)) (\<lambda>upper.
         bindH (apply_op (\<lambda>t. random_saturation tf t lower upper) img) (\<lambda>img.
         bindH (liftE (getitem cfg ''hue'')) (\<lambda>hue.
         bindH (apply_op (\<lambda>t. random_hue tf t hue) img) (\<lambda>img.
         bindH (liftE (bindE (getitem cfg ''contrast'') one_minus)) (\<lambda>lower.
         bindH (liftE (bindE (getitem cfg ''contrast'') one_plus)) (\<lambda>upper.
           apply_op (\<lambda>t. random_contrast tf t lower upper) img)))))))))
       else ret img))))))))"

text \<open>
  The body of \<^verbatim>\<open>augment\<close> up to the copy: \<^verbatim>\<open>img = example["image"]\<close>, then the
  statements above.
\<close>

definition augmented_image :: "'img tf_image \<Rightarrow> AugmentationConfig \<Rightarrow> nat \<Rightarrow> ('img, nat) comp" where
  "augmented_image tf cfg example =
     bindH (read_example example) (\<lambda>entries.
     bindH (liftE (getitem entries ''image'')) (\<lambda>img.
     bindH (read_tensor img) (\<lambda>t.
       augmentations tf cfg img t)))"

definition augment :: "'img tf_image \<Rightarrow> AugmentationConfig \<Rightarrow> nat \<Rightarrow> ('img, nat) comp" where
  "augment tf cfg example =
     bindH (augmented_image tf cfg example) (\<lambda>img.
     bindH (copy_example example) (\<lambda>example'.
     bindH (setitem example' ''image'' img) (\<lambda>_. ret example')))"

definition get_augmentation :: "'img tf_image \<Rightarrow> AugmentationConfig \<Rightarrow> nat \<Rightarrow> ('img, nat) comp" where
  "get_augmentation tf cfg = (\<lambda>example. augment tf cfg example)"

text \<open>
  The image the transformation computes, as a function of the tensor alone, with no
  store: the same statements with every variable holding a tensor instead of an address.
  The operations come in the order the specification gives: the crop by \<open>crop_amount\<close>
  pixels of each spatial dimension, the left-right flip, the up-down flip and, only for an
  image of 3 channels with the colour flag set, the brightness, saturation, hue and
  contrast jitters, each symmetric around the identity. The result is the final tensor, or
  the error of the first lookup or operation that raises.
\<close>

definition augmented_tensor :: "'img tf_image \<Rightarrow> AugmentationConfig \<Rightarrow> 'img \<Rightarrow> py_error + 'img" where
  "augmented_tensor tf cfg t =
     bindE (bindE (as_list tf t) (\<lambda>dims. index dims 2)) (\<lambda>channels.
     bindE (getitem cfg ''crop_amount'') (\<lambda>crop.
     bindE (if truthy crop then
              bindE (bindE (as_list tf t) (\<lambda>dims. index dims 0)) (\<lambda>height.
              bindE (bindE (as_list tf t) (\<lambda>dims. index dims 1)) (\<lambda>width.
              bindE (dim_minus height crop) (\<lambda>h'.
              bindE (dim_minus width crop) (\<lambda>w'.
                random_crop tf t [h', w', dim_value channels]))))
            else Inr t) (\<lambda>t.
     bindE (getitem cfg ''flip_left_right'') (\<lambda>flip_lr.
     bindE (if truthy flip_lr then random_flip_left_right tf t else Inr t) (\<lambda>t.
     bindE (getitem cfg ''flip_up_down'') (\<lambda>flip_ud.
     bindE (if truthy flip_ud then random_flip_up_down tf t else Inr t) (\<lambda>t.
     bindE (getitem cfg ''do_color_aug'') (\<lambda>do_color_aug.
       if truthy do_color_aug \<and> channels = Some 3 then
         bindE (getitem cfg ''brightness'') (\<lambda>brightness.
         bindE (random_brightness tf t brightness) (\<lambda>t.
         bindE (bindE (getitem cfg ''saturation'') one_minus) (\<lambda>lower.
         bindE (bindE (getitem cfg ''saturation'') one_plus) (\<lambda>upper.
         bindE (random_saturation tf t lower upper) (\<lambda>t.
         bindE (getitem cfg ''hue'') (\<lambda>hue.
         bindE (random_hue tf t hue) (\<lambda>t.
         bindE (bindE (getitem cfg ''contrast'') one_minus) (\<lambda>lower.
         bindE (bindE (getitem cfg ''contrast'') one_plus) (\<lambda>upper.
           random_contrast tf t lower upper)))))))))
       else Inr t))))))))"

text \<open>
  Two properties of a computation on the store, used to state what \<^verbatim>\<open>augment\<close> does.
  It only puts new objects at the end of the store. And from the store \<open>h\<close> it has the
  outcome \<open>res\<close>: it raises the error \<open>res\<close> is, or it returns the address of a tensor
  that is the tensor \<open>res\<close> is.
\<close>

definition grows :: "('img, 'a) comp \<Rightarrow> bool" where
  "grows m = (\<forall>h. \<exists>new. fst (m h) = h @ new)"

definition computes :: "('img, nat) comp \<Rightarrow> 'img heap \<Rightarrow> py_error + 'img \<Rightarrow> bool" where
  "computes m h res =
     (case res of
        Inl err \<Rightarrow> snd (m h) = Inl err
      | Inr t \<Rightarrow> (\<exists>a. snd (m h) = Inr a \<and> a < length (fst (m h)) \<and> fst (m h) ! a = Tensor t))"

text \<open>
  A store, two configs and operations for the examples. A tensor is the raw image it was
  decoded from, or the result of an operation, recorded with the operation's name and
  arguments. Every image has the shape \<open>32 \<times> 32 \<times> 3\<close>; a crop raises \<^verbatim>\<open>ValueError\<close>
  unless its size is an integer triple within that shape, the other operations return.
  The store holds an image, a label and, at address 2, the example with these two fields.
\<close>

datatype tensor = Raw nat | Applied string "pyval list" tensor

definition example_tf :: "tensor tf_image" where
  "example_tf =
     \<lparr>as_list = (\<lambda>t. Inr [Some 32, Some 32, Some 3]),
      random_crop = (\<lambda>t size.
        case size of
          [PInt height, PInt width, PInt channels] \<Rightarrow>
            if 0 \<le> height \<and> height \<le> 32 \<and> 0 \<le> width \<and> width \<le> 32 \<and> channels = 3
            then Inr (Applied ''random_crop'' size t) else Inl ValueError
        | _ \<Rightarrow> Inl ValueError),
      random_flip_left_right = (\<lambda>t. Inr (Applied ''random_flip_left_right'' [] t)),
      random_flip_up_down = (\<lambda>t. Inr (Applied ''random_flip_up_down'' [] t)),
      random_brightness = (\<lambda>t max_delta. Inr (Applied ''random_brightness'' [max_delta] t)),
      random_saturation = (\<lambda>t lower upper. Inr (Applied ''random_saturation'' [lower, upper] t)),
      random_hue = (\<lambda>t max_delta. Inr (Applied ''random_hue'' [max_delta] t)),
      random_contrast = (\<lambda>t lower upper. Inr (Applied ''random_contrast'' [lower, upper] t))\<rparr>"

definition example_heap :: "tensor heap" where
  "example_heap = [Tensor (Raw 10), Tensor (Raw 20), Example [(''image'', 0), (''label'', 1)]]"

definition example_config :: AugmentationConfig where
  "example_config =
     [(''crop_amount'', PInt 1), (''flip_left_right'', PBool True),
      (''flip_up_down'', PBool False), (''do_color_aug'', PBool True),
      (''brightness'', PFloat (1/10)), (''saturation'', PFloat (1/2)),
      (''hue'', PFloat (1/10)), (''contrast'', PFloat (1/2))]"

definition oversized_crop_config :: AugmentationConfig where
  "oversized_crop_config =
     [(''crop_amount'', PInt 40), (''flip_left_right'', PBool True),
      (''flip_up_down'', PBool False), (''do_color_aug'', PBool True),
      (''brightness'', PFloat (1/10)), (''saturation'', PFloat (1/2)),
      (''hue'', PFloat (1/10)), (''contrast'', PFloat (1/2))]"

section \<open>Datasets\<close>

text \<open>
  Modelled from the spec: the declaration of \<^verbatim>\<open>datasets.Datasets\<close> is not part of this
  module. The spec gives it four slots: train, validation, train-for-eval and test. The
  pipelines in the slots are opaque.
\<close>

record 'p Datasets =
  train :: 'p
  validation :: 'p
  train_for_eval :: 'p
  test :: 'p

text \<open>
  The two pipeline providers \<^verbatim>\<open>datasets.get_image_datasets\<close> and
  \<^verbatim>\<open>datasets.random_slice_text_data\<close> are parameters: functions of the arguments the module
  passes, the keyword arguments as a list of names and values in the order of the call.
\<close>

type_synonym Config = "(string \<times> pyval) list"

type_synonym 'img augmentation_fn = "nat \<Rightarrow> ('img, nat) comp"

type_synonym ('img, 'p) image_provider =
  "string \<Rightarrow> (string \<times> pyval) list \<Rightarrow> 'img augmentation_fn option \<Rightarrow> 'p Datasets"

type_synonym 'p text_provider = "(string \<times> pyval) list \<Rightarrow> 'p Datasets"

type_synonym config_sampler = "rng \<Rightarrow> py_error + (Config \<times> rng)"

definition make_just_train :: "'p Datasets \<Rightarrow> pyval \<Rightarrow> 'p Datasets" where
  "make_just_train dataset just_train =
     (if truthy just_train
      then \<lparr>train = train dataset, validation = train dataset,
            train_for_eval = train dataset, test = train dataset\<rparr>
      else dataset)"

definition sample_mnist_and_fashion_mnist :: config_sampler where
  "sample_mnist_and_fashion_mnist rng =
     (case sample_log_int rng 8 512 of (bs, r1) \<Rightarrow>
        bindE (sample_linear_int r1 1000 55000) (\<lambda>(num_train, r2).
        bindE (sample_bool r2 (1/10)) (\<lambda>(just_train, r3).
          Inr ([(''bs'', PInt bs), (''num_train'', PInt num_train),
                (''num_classes'', PInt 10), (''just_train'', PBool just_train)], r3))))"

definition sample_cifar_image :: config_sampler where
  "sample_cifar_image rng =
     (case sample_log_int rng 8 256 of (bs, r1) \<Rightarrow>
        bindE (sample_linear_int r1 1000 50000) (\<lambda>(num_train, r2).
        bindE (sample_bool r2 (2/10)) (\<lambda>(just_train, r3).
          Inr ([(''bs'', PInt bs), (''num_train'', PInt num_train),
                (''just_train'', PBool just_train)], r3))))"

definition sample_default_image :: config_sampler where
  "sample_default_image rng =
     (case sample_log_int rng 8 256 of (bs, r1) \<Rightarrow>
        bindE (sample_bool r1 (2/10)) (\<lambda>(just_train, r2).
          Inr ([(''bs'', PInt bs), (''just_train'', PBool just_train),
                (''num_train'', PNone)], r2)))"

definition n_valid_for_smaller_datasets :: "(string \<times> int) list" where
  "n_valid_for_smaller_datasets = [(''coil100_32x32'', 800), (''deep_weeds_32x32'', 2000)]"

definition get_image :: "('img, 'p) image_provider \<Rightarrow> string \<Rightarrow> Config \<Rightarrow> bool \<Rightarrow> 'img augmentation_fn option \<Rightarrow> py_error + 'p Datasets" where
  "get_image get_image_datasets name config cache augmentation_fn =
     (let num_per_valid =
            (case map_of n_valid_for_smaller_datasets name of Some n \<Rightarrow> n | None \<Rightarrow> 5000)
      in bindE (getitem config ''bs'') (\<lambda>bs.
         bindE (getitem config ''num_train'') (\<lambda>num_train.
           Inr (get_image_datasets name
                  [(''batch_size'', bs), (''num_train'', num_train),
                   (''shuffle_buffer'', PInt 10000), (''cache_dataset'', PBool cache),
                   (''num_per_valid'', PInt num_per_valid)]
                  augmentation_fn))))"

definition name_to_image_dataset_map :: "('img, 'p) image_provider \<Rightarrow> (string \<times> (config_sampler \<times> (Config \<Rightarrow> 'img augmentation_fn option \<Rightarrow> py_error + 'p Datasets))) list" where
  "name_to_image_dataset_map prov =
     [(''mnist'', (sample_mnist_and_fashion_mnist,
                   \<lambda>config aug. get_image prov ''mnist'' config True aug)),
      (''fashion_mnist'', (sample_mnist_and_fashion_mnist,
                   \<lambda>config aug. get_image prov ''fashion_mnist'' config True aug)),
      (''cifar10'', (sample_cifar_image,
                   \<lambda>config aug. get_image prov ''cifar10'' config True aug)),
      (''cifar100'', (sample_cifar_image,
                   \<lambda>config aug. get_image prov ''cifar100'' config True aug)),
      (''food101_32x32'', (sample_default_image,
                   \<lambda>config aug. get_image prov ''food101_32x32'' config True aug)),
      (''coil100_32x32'', (sample_default_image,
                   \<lambda>config aug. get_image prov ''coil100_32x32'' config True aug)),
      (''deep_weeds_32x32'', (sample_default_image,
                   \<lambda>config aug. get_image prov ''deep_weeds_32x32'' config True aug)),
      (''sun397_32x32'', (sample_default_image,
                   \<lambda>config aug. get_image prov ''sun397_32x32'' config True aug)),
      (''imagenet_resized/32x32'', (sample_default_image,
                   \<lambda>config aug. get_image prov ''imagenet_resized/32x32'' config True aug)),
      (''imagenet_resized/16x16'', (sample_default_image,
                   \<lambda>config aug. get_image prov ''imagenet_resized/16x16'' config True aug))]"

type_synonym ImageDatasetConfig = "string \<times> Config \<times> AugmentationConfig option"

definition sample_image_dataset :: "('img, 'p) image_provider \<Rightarrow> rng \<Rightarrow> py_error + (ImageDatasetConfig \<times> rng)" where
  "sample_image_dataset prov rng =
     (case choice rng (sort (map fst (name_to_image_dataset_map prov))) of (name, r1) \<Rightarrow>
        bindE (sample_bool r1 (3/10)) (\<lambda>(with_aug, r2).
          case (if with_aug
                then (case sample_augmentation r2 of (aug, r) \<Rightarrow> (Some aug, r))
                else (None, r2)) of
            (augmentation, r3) \<Rightarrow>
              bindE (getitem (name_to_image_dataset_map prov) name) (\<lambda>(sampler, _).
              bindE (sampler r3) (\<lambda>(config, r4).
                Inr ((name, config, augmentation), r4)))))"

text \<open>
  \<^verbatim>\<open>get_augmentation(aug_cfg) if aug_cfg else None\<close>: an empty mapping is false as
  \<^verbatim>\<open>None\<close> is.
\<close>

definition get_image_dataset :: "'img tf_image \<Rightarrow> ('img, 'p) image_provider \<Rightarrow> ImageDatasetConfig \<Rightarrow> py_error + 'p Datasets" where
  "get_image_dataset tf prov cfg =
     (case cfg of
        (name, config, aug_cfg) \<Rightarrow>
          (let augmentation_fn =
                 (case aug_cfg of
                    None \<Rightarrow> None
                  | Some a \<Rightarrow> if a \<noteq> [] then Some (get_augmentation tf a) else None)
           in bindE (getitem (name_to_image_dataset_map prov) name) (\<lambda>(_, materialize).
                materialize config augmentation_fn)))"

subsection \<open>Text classification\<close>

definition sample_text_classification :: config_sampler where
  "sample_text_classification rng =
     bindE (sample_bool rng (2/10)) (\<lambda>(capped, r1).
       bindE (if capped
              then bindE (sample_linear_int r1 1000 50000) (\<lambda>(n, r). Inr (PInt n, r))
              else Inr (PNone, r1))
         (\<lambda>(num_train, r2).
           (case sample_log_int r2 8 512 of (bs, r3) \<Rightarrow>
              bindE (sample_bool r3 (2/10)) (\<lambda>(just_train, r4).
                case sample_log_int r4 8 128 of (patch_length, r5) \<Rightarrow>
                  Inr ([(''bs'', PInt bs), (''num_train'', num_train),
                        (''max_token'', PInt 8185), (''just_train'', PBool just_train),
                        (''patch_length'', PInt patch_length)], r5)))))"

definition get_text_classification :: "'p text_provider \<Rightarrow> string \<Rightarrow> Config \<Rightarrow> py_error + 'p Datasets" where
  "get_text_classification random_slice_text_data dataset_name config =
     bindE (getitem config ''bs'') (\<lambda>bs.
     bindE (getitem config ''num_train'') (\<lambda>num_train.
     bindE (getitem config ''patch_length'') (\<lambda>patch_length.
       Inr (random_slice_text_data
              [(''dataset_name'', PStr dataset_name), (''batch_size'', bs),
               (''num_train'', num_train), (''patch_length'', patch_length),
               (''cache_dataset'', PBool True), (''num_per_valid'', PInt 3000)]))))"

text \<open>
  The list of the loop. Its first two literals have no comma between them: Python joins
  adjacent string literals into one string.
\<close>

definition text_dataset_names :: "string list" where
  "text_dataset_names =
     [''imdb_reviews/subwords8k'' @ ''imdb_reviews/bytes'',
      ''tokenized_amazon_reviews/Books_v1_02_bytes'',
      ''tokenized_amazon_reviews/Camera_v1_00_bytes'',
      ''tokenized_amazon_reviews/Home_v1_00_bytes'',
      ''tokenized_amazon_reviews/Video_v1_00_bytes'',
      ''tokenized_amazon_reviews/Books_v1_02_subwords8k'',
      ''tokenized_amazon_reviews/Camera_v1_00_subwords8k'',
      ''tokenized_amazon_reviews/Home_v1_00_subwords8k'',
      ''tokenized_amazon_reviews/Video_v1_00_subwords8k'']"

text \<open>\<^verbatim>\<open>for _dataset_name in names: registry[_dataset_name] = entry(_dataset_name)\<close>\<close>

fun populate :: "(string \<Rightarrow> 'v) \<Rightarrow> string list \<Rightarrow> (string \<times> 'v) list \<Rightarrow> (string \<times> 'v) list" where
  "populate entry [] registry = registry"
| "populate entry (name # names) registry =
     populate entry names (AList.update name (entry name) registry)"

definition name_to_text_dataset_map :: "'p text_provider \<Rightarrow> (string \<times> (config_sampler \<times> (Config \<Rightarrow> py_error + 'p Datasets))) list" where
  "name_to_text_dataset_map prov =
     populate
       (\<lambda>name.
          (sample_text_classification, get_text_classification prov ''imdb_reviews/subwords8k''))
       text_dataset_names []"

type_synonym TextDatasetConfig = "string \<times> Config"

definition sample_text_dataset :: "'p text_provider \<Rightarrow> rng \<Rightarrow> py_error + (TextDatasetConfig \<times> rng)" where
  "sample_text_dataset prov rng =
     (case choice rng (sort (map fst (name_to_text_dataset_map prov))) of (name, r1) \<Rightarrow>
        bindE (getitem (name_to_text_dataset_map prov) name) (\<lambda>(sampler, _).
        bindE (sampler r1) (\<lambda>(config, r2). Inr ((name, config), r2))))"

definition get_text_dataset :: "'p text_provider \<Rightarrow> TextDatasetConfig \<Rightarrow> py_error + 'p Datasets" where
  "get_text_dataset prov cfg =
     (case cfg of
        (name, config) \<Rightarrow>
          bindE (getitem (name_to_text_dataset_map prov) name) (\<lambda>(_, materialize).
            materialize config))"

subsection \<open>Byte-level sequences\<close>

definition sample_byte_config :: config_sampler where
  "sample_byte_config rng =
     bindE (sample_bool rng (2/10)) (\<lambda>(capped, r1).
       bindE (if capped
              then bindE (sample_linear_int r1 1000 50000) (\<lambda>(n, r). Inr (PInt n, r))
              else Inr (PNone, r1))
         (\<lambda>(num_train, r2).
           (case sample_log_int r2 10 160 of (patch_length, r3) \<Rightarrow>
            case sample_log_int r3 8 512 of (batch_size, r4) \<Rightarrow>
              bindE (sample_bool r4 (2/10)) (\<lambda>(just_train, r5).
                Inr ([(''patch_length'', PInt patch_length), (''batch_size'', PInt batch_size),
                      (''just_train'', PBool just_train), (''num_train'', num_train)], r5)))))"

definition get_byte_dataset :: "'p text_provider \<Rightarrow> Config \<Rightarrow> string \<Rightarrow> py_error + 'p Datasets" where
  "get_byte_dataset random_slice_text_data config name =
     bindE (getitem config ''batch_size'') (\<lambda>batch_size.
     bindE (getitem config ''patch_length'') (\<lambda>patch_length.
     bindE (getitem config ''num_train'') (\<lambda>num_train.
     bindE (getitem config ''just_train'') (\<lambda>just_train.
       Inr (make_just_train
              (random_slice_text_data
                 [(''dataset_name'', PStr name), (''batch_size'', batch_size),
                  (''patch_length'', patch_length), (''num_per_valid'', PInt 3000),
                  (''shuffle_buffer'', PInt 10000), (''cache_dataset'', PBool True),
                  (''num_train'', num_train)])
              just_train)))))"

definition char_sequence_dataset_names :: "string list" where
  "char_sequence_dataset_names =
     [''lm1b/bytes'',
      ''imdb_reviews/bytes'',
      ''tokenized_wikipedia/20190301.zh_bytes'',
      ''tokenized_wikipedia/20190301.ru_bytes'',
      ''tokenized_wikipedia/20190301.ja_bytes'',
      ''tokenized_wikipedia/20190301.hsb_bytes'',
      ''tokenized_wikipedia/20190301.en_bytes'',
      ''tokenized_amazon_reviews/Books_v1_02_bytes'',
      ''tokenized_amazon_reviews/Camera_v1_00_bytes'',
      ''tokenized_amazon_reviews/Home_v1_00_bytes'',
      ''tokenized_amazon_reviews/Video_v1_00_bytes'']"

definition name_to_char_sequence_dataset_map :: "'p text_provider \<Rightarrow> (string \<times> (config_sampler \<times> (Config \<Rightarrow> py_error + 'p Datasets))) list" where
  "name_to_char_sequence_dataset_map prov =
     populate (\<lambda>name. (sample_byte_config, \<lambda>config. get_byte_dataset prov config name))
       char_sequence_dataset_names []"

definition sample_char_lm_dataset :: "'p text_provider \<Rightarrow> rng \<Rightarrow> py_error + (TextDatasetConfig \<times> rng)" where
  "sample_char_lm_dataset prov rng =
     (case choice rng (sort (map fst (name_to_char_sequence_dataset_map prov))) of
        (name, r1) \<Rightarrow>
          bindE (getitem (name_to_char_sequence_dataset_map prov) name) (\<lambda>(sampler, _).
          bindE (sampler r1) (\<lambda>(config, r2). Inr ((name, config), r2))))"

definition get_char_lm_dataset :: "'p text_provider \<Rightarrow> TextDatasetConfig \<Rightarrow> py_error + 'p Datasets" where
  "get_char_lm_dataset prov cfg =
     (case cfg of
        (name, args) \<Rightarrow>
          bindE (getitem (name_to_char_sequence_dataset_map prov) name) (\<lambda>(_, materialize).
            materialize args))"

subsection \<open>Word-level sequences\<close>

definition make_get_word_dataset :: "'p text_provider \<Rightarrow> string \<Rightarrow> Config \<Rightarrow> py_error + 'p Datasets" where
  "make_get_word_dataset random_slice_text_data dataset_name =
     (\<lambda>config.
        bindE (getitem config ''batch_size'') (\<lambda>batch_size.
        bindE (getitem config ''patch_length'') (\<lambda>patch_length.
        bindE (getitem config ''num_train'') (\<lambda>num_train.
        bindE (getitem config ''just_train'') (\<lambda>just_train.
          Inr (make_just_train
                 (random_slice_text_data
                    [(''dataset_name'', PStr dataset_name), (''batch_size'', batch_size),
                     (''patch_length'', patch_length), (''num_train'', num_train),
                     (''cache_dataset'', PBool True), (''num_per_valid'', PInt 10000),
                     (''shuffle_buffer'', PInt 10000)])
                 just_train))))))"

definition sample_word_dataset_config :: config_sampler where
  "sample_word_dataset_config rng =
     bindE (sample_bool rng (2/10)) (\<lambda>(capped, r1).
       bindE (if capped
              then bindE (sample_linear_int r1 1000 50000) (\<lambda>(n, r). Inr (PInt n, r))
              else Inr (PNone, r1))
         (\<lambda>(num_train, r2).
           (case sample_log_int r2 10 256 of (patch_length, r3) \<Rightarrow>
            case sample_log_int r3 8 512 of (batch_size, r4) \<Rightarrow>
              bindE (sample_bool r4 (2/10)) (\<lambda>(just_train, r5).
                Inr ([(''patch_length'', PInt patch_length), (''batch_size'', PInt batch_size),
                      (''just_train'', PBool just_train), (''num_train'', num_train)], r5)))))"

definition word_sequence_dataset_names :: "string list" where
  "word_sequence_dataset_names =
     [''lm1b/subwords8k'',
      ''imdb_reviews/subwords8k'',
      ''tokenized_wikipedia/20190301.zh_subwords8k'',
      ''tokenized_wikipedia/20190301.ru_subwords8k'',
      ''tokenized_wikipedia/20190301.ja_subwords8k'',
      ''tokenized_wikipedia/20190301.hsb_subwords8k'',
      ''tokenized_wikipedia/20190301.en_subwords8k'',
      ''tokenized_amazon_reviews/Books_v1_02_subwords8k'',
      ''tokenized_amazon_reviews/Camera_v1_00_subwords8k'',
      ''tokenized_amazon_reviews/Home_v1_00_subwords8k'',
      ''tokenized_amazon_reviews/Video_v1_00_subwords8k'']"

definition name_to_word_sequence_dataset_map :: "'p text_provider \<Rightarrow> (string \<times> (config_sampler \<times> (Config \<Rightarrow> py_error + 'p Datasets))) list" where
  "name_to_word_sequence_dataset_map prov =
     populate (\<lambda>name. (sample_word_dataset_config, make_get_word_dataset prov name))
       word_sequence_dataset_names []"

definition sample_word_lm_dataset :: "'p text_provider \<Rightarrow> rng \<Rightarrow> py_error + (TextDatasetConfig \<times> rng)" where
  "sample_word_lm_dataset prov rng =
     (case choice rng (sort (map fst (name_to_word_sequence_dataset_map prov))) of
        (name, r1) \<Rightarrow>
          bindE (getitem (name_to_word_sequence_dataset_map prov) name) (\<lambda>(sampler, _).
          bindE (sampler r1) (\<lambda>(config, r2). Inr ((name, config), r2))))"

definition get_word_lm_dataset :: "'p text_provider \<Rightarrow> TextDatasetConfig \<Rightarrow> py_error + 'p Datasets" where
  "get_word_lm_dataset prov cfg =
     (case cfg of
        (name, args) \<Rightarrow>
          bindE (getitem (name_to_word_sequence_dataset_map prov) name) (\<lambda>(_, materialize).
            materialize args))"

subsection \<open>Providers for the examples\<close>

text \<open>Two providers whose bundle has four different pipelines, named by number.\<close>

definition four_image_pipelines :: "('img, nat) image_provider" where
  "four_image_pipelines name kwargs augmentation_fn =
     \<lparr>train = 0, validation = 1, train_for_eval = 2, test = 3\<rparr>"

definition four_text_pipelines :: "nat text_provider" where
  "four_text_pipelines kwargs = \<lparr>train = 0, validation = 1, train_for_eval = 2, test = 3\<rparr>"

section \<open>Config serialization\<close>

text \<open>
  \<^verbatim>\<open>json.dumps\<close> of the standard library with its default arguments, on the values a
  config is made of. A string is written between double quotes with the escapes of
  \<^verbatim>\<open>ensure_ascii\<close>; the items of a list or a mapping are separated by \<^verbatim>\<open>", "\<close> and a key
  from its value by \<^verbatim>\<open>": "\<close>. A character is a code point below 256. The text of a
  float is a parameter.
\<close>

definition digit_char :: "nat \<Rightarrow> char" where
  "digit_char n = char_of (48 + n)"

function digits :: "nat \<Rightarrow> string" where
  "digits n = (if n < 10 then [digit_char n] else digits (n div 10) @ [digit_char (n mod 10)])"
  by pat_completeness auto
termination
  by (relation "measure id") auto

definition str_int :: "int \<Rightarrow> string" where
  "str_int i = (if i < 0 then CHR ''-'' # digits (nat (- i)) else digits (nat i))"

definition hex_char :: "nat \<Rightarrow> char" where
  "hex_char n = ''0123456789abcdef'' ! n"

definition escape_char :: "char \<Rightarrow> string" where
  "escape_char c =
     (let n = (of_char c :: nat) in
      if n = 0x5C then [CHR 0x5C, CHR 0x5C]
      else if n = 0x22 then [CHR 0x5C, CHR 0x22]
      else if n = 0x08 then [CHR 0x5C, CHR ''b'']
      else if n = 0x0C then [CHR 0x5C, CHR ''f'']
      else if n = 0x0A then [CHR 0x5C, CHR ''n'']
      else if n = 0x0D then [CHR 0x5C, CHR ''r'']
      else if n = 0x09 then [CHR 0x5C, CHR ''t'']
      else if 0x20 \<le> n \<and> n \<le> 0x7E then [c]
      else [CHR 0x5C, CHR ''u'', CHR ''0'', CHR ''0'', hex_char (n div 16), hex_char (n mod 16)])"

definition encode_string :: "string \<Rightarrow> string" where
  "encode_string s = [CHR 0x22] @ concat (map escape_char s) @ [CHR 0x22]"

text \<open>\<^verbatim>\<open>sep.join(xs)\<close>\<close>

fun join :: "string \<Rightarrow> string list \<Rightarrow> string" where
  "join sep [] = []"
| "join sep [x] = x"
| "join sep (x # y # ys) = x @ sep @ join sep (y # ys)"

fun json_dumps :: "(real \<Rightarrow> string) \<Rightarrow> pyval \<Rightarrow> string" where
  "json_dumps float_repr PNone = ''null''"
| "json_dumps float_repr (PBool b) = (if b then ''true'' else ''false'')"
| "json_dumps float_repr (PInt n) = str_int n"
| "json_dumps float_repr (PFloat x) = float_repr x"
| "json_dumps float_repr (PStr s) = encode_string s"
| "json_dumps float_repr (PList xs) =
     ''['' @ join '', '' (map (json_dumps float_repr) xs) @ '']''"
| "json_dumps float_repr (PDict kvs) =
     ''{'' @ join '', ''
              (map (\<lambda>kv. encode_string (fst kv) @ '': '' @ json_dumps float_repr (snd kv)) kvs)
          @ ''}''"

text \<open>
  \<^verbatim>\<open>"\"%s\":%s" % (l, json.dumps(n))\<close>: the key is put between the quotes as it is.
\<close>

definition pretty_json_dumps :: "(real \<Rightarrow> string) \<Rightarrow> pyval \<Rightarrow> py_error + string" where
  "pretty_json_dumps float_repr dd =
     (case dd of
        PDict items \<Rightarrow>
          (let lines = map (\<lambda>(l, n). [CHR 0x22] @ l @ [CHR 0x22] @ '':'' @ json_dumps float_repr n)
                         (sort_key fst items)
           in Inr (''{'' @ [CHR 0x0A] @ join ('','' @ [CHR 0x0A]) lines @ [CHR 0x0A] @ ''}''))
      | _ \<Rightarrow> Inl ValueError)"

text \<open>
  Two configs for the examples: one with the keys \<^verbatim>\<open>a\<close> and \<^verbatim>\<open>b\<close>, and one with the single
  key \<^verbatim>\<open>a":true,\<close>, a line feed, \<^verbatim>\<open>"b\<close>.
\<close>

definition two_keys :: pyval where
  "two_keys = PDict [(''a'', PBool True), (''b'', PBool True)]"

definition one_key :: pyval where
  "one_key = PDict [(''a'' @ [CHR 0x22] @ '':true,'' @ [CHR 0x0A, CHR 0x22] @ ''b'', PBool True)]"

section \<open>Properties of the scalar samplers\<close>

lemma uniform_range:
  assumes "rng_ok r" "low < high"
  shows "low \<le> fst (uniform r low high)" "fst (uniform r low high) < high"
proof -
  have u: "0 \<le> r 0" "r 0 < 1" using assms(1) by (simp_all add: rng_ok_def)
  have "0 \<le> (high - low) * r 0" using u assms(2) by simp
  then show "low \<le> fst (uniform r low high)"
    by (simp add: uniform_def next_draw_def)
  have "(high - low) * r 0 < (high - low) * 1"
    using u assms(2) by (intro mult_strict_left_mono) simp_all
  then show "fst (uniform r low high) < high"
    by (simp add: uniform_def next_draw_def)
qed

lemma rng_ok_next: "rng_ok r \<Longrightarrow> rng_ok (snd (next_draw r))"
  by (simp add: rng_ok_def next_draw_def)

lemma rng_ok_uniform: "rng_ok r \<Longrightarrow> rng_ok (snd (uniform r low high))"
  by (simp add: rng_ok_def uniform_def next_draw_def)

lemma np_round_lower: "of_int lo \<le> x \<Longrightarrow> lo \<le> np_round x"
proof -
  assume "of_int lo \<le> x"
  then have "lo \<le> \<lfloor>x\<rfloor>" by (simp add: le_floor_iff)
  then show ?thesis by (simp add: np_round_def Let_def)
qed

lemma np_round_upper: "x \<le> of_int hi \<Longrightarrow> np_round x \<le> hi"
proof -
  assume h: "x \<le> of_int hi"
  then have f: "\<lfloor>x\<rfloor> \<le> hi" by (simp add: floor_le_iff)
  show ?thesis
  proof (cases "x - of_int \<lfloor>x\<rfloor> < 1/2")
    case True
    then show ?thesis using f by (simp add: np_round_def Let_def)
  next
    case False
    then have "of_int \<lfloor>x\<rfloor> < x" by linarith
    then have "of_int \<lfloor>x\<rfloor> < (of_int hi :: real)" using h by linarith
    then have "\<lfloor>x\<rfloor> < hi" by simp
    then show ?thesis by (simp add: np_round_def Let_def)
  qed
qed

lemma sample_log_int_range:
  assumes "rng_ok rng" "0 < low" "low < high"
  shows "low \<le> fst (sample_log_int rng low high)" "fst (sample_log_int rng low high) \<le> high"
proof -
  let ?a = "ln (real_of_int low)" and ?b = "ln (real_of_int high)"
  have ab: "?a < ?b" using assms(2,3) by simp
  have lo: "?a \<le> fst (uniform rng ?a ?b)" and hi: "fst (uniform rng ?a ?b) < ?b"
    using uniform_range [OF assms(1) ab] by simp_all
  have "exp ?a \<le> exp (fst (uniform rng ?a ?b))" using lo by simp
  then have "of_int low \<le> exp (fst (uniform rng ?a ?b))" using assms(2) by simp
  then show "low \<le> fst (sample_log_int rng low high)"
    by (simp add: sample_log_int_def split_beta np_round_lower)
  have "exp (fst (uniform rng ?a ?b)) \<le> exp ?b" using hi by simp
  then have "exp (fst (uniform rng ?a ?b)) \<le> of_int high" using assms(2,3) by simp
  then show "fst (sample_log_int rng low high) \<le> high"
    by (simp add: sample_log_int_def split_beta np_round_upper)
qed





text \<open>\<open>2^53 + 1\<close> lies half way between two doubles and goes to the even one, \<open>2^53\<close>.\<close>

lemma py_float_tie: "py_float 9007199254740993 = Inr 9007199254740992"
  by (simp add: py_float_def Let_def round_half_even_div_def)


section \<open>Properties of the random choices\<close>

lemma cumsum_length: "length (cumsum acc ps) = length ps"
  by (induction ps arbitrary: acc) auto

lemma cumsum_last_pos:
  "ps \<noteq> [] \<Longrightarrow> \<forall>p\<in>set ps. 0 < p \<Longrightarrow> 0 \<le> acc \<Longrightarrow> 0 < last (cumsum acc ps)"
proof (induction ps arbitrary: acc)
  case Nil
  then show ?case by simp
next
  case (Cons p ps)
  show ?case
  proof (cases "ps = []")
    case True
    then show ?thesis using Cons.prems by simp
  next
    case False
    have "0 < last (cumsum (acc + p) ps)"
      using Cons.IH [OF False, of "acc + p"] Cons.prems by simp
    moreover have "cumsum (acc + p) ps \<noteq> []"
      using False cumsum_length [of "acc + p" ps] by (cases ps) auto
    ultimately show ?thesis by simp
  qed
qed

lemma searchsorted_right_less:
  assumes "cdf \<noteq> []" "u < last cdf"
  shows "searchsorted_right cdf u < length cdf"
proof -
  have "last cdf \<in> set cdf" using assms(1) by simp
  then have "\<not> (\<forall>c\<in>set cdf. c \<le> u)" using assms(2) by force
  then have "takeWhile (\<lambda>c. c \<le> u) cdf \<noteq> cdf" by simp
  moreover have "length (takeWhile (\<lambda>c. c \<le> u) cdf) \<le> length cdf"
    by (rule length_takeWhile_le)
  ultimately show ?thesis
    unfolding searchsorted_right_def
    by (metis le_neq_implies_less takeWhile_eq_take take_all_iff order_refl)
qed

lemma choice_p_mem:
  assumes "rng_ok r" "probs \<noteq> []" "length xs = length probs" "\<forall>p\<in>set probs. 0 < p"
  shows "fst (choice_p r xs probs) \<in> set xs"
proof -
  let ?cdf = "cumsum 0 probs"
  let ?cdf' = "map (\<lambda>c. c / last ?cdf) ?cdf"
  have ne: "?cdf \<noteq> []" using assms(2) cumsum_length [of 0 probs] by (cases probs) auto
  have pos: "0 < last ?cdf" using cumsum_last_pos [OF assms(2,4)] by simp
  have "last ?cdf' = last ?cdf / last ?cdf" using ne by (simp add: last_map)
  then have one: "last ?cdf' = 1" using pos by simp
  have "r 0 < 1" using assms(1) by (simp add: rng_ok_def)
  then have "searchsorted_right ?cdf' (r 0) < length ?cdf'"
    using searchsorted_right_less [of ?cdf' "r 0"] ne one by simp
  then have "searchsorted_right ?cdf' (r 0) < length xs"
    by (simp add: cumsum_length assms(3))
  then show ?thesis
    by (simp add: choice_p_def next_draw_def Let_def)
qed

lemma rng_ok_choice_p: "rng_ok r \<Longrightarrow> rng_ok (snd (choice_p r xs probs))"
  by (simp add: choice_p_def Let_def split_beta rng_ok_next)

lemma rng_ok_choice: "rng_ok r \<Longrightarrow> rng_ok (snd (choice r xs))"
  by (simp add: choice_def split_beta rng_ok_next)

lemma normalize_pos:
  assumes "\<forall>w\<in>set ws. 0 < w"
  shows "\<forall>p\<in>set (normalize ws). 0 < p"
proof
  fix p assume "p \<in> set (normalize ws)"
  then obtain w where w: "w \<in> set ws" "p = real w / real (sum_list ws)"
    by (auto simp: normalize_def)
  have "w \<le> sum_list ws" using w(1) by (simp add: member_le_sum_list)
  then have "0 < sum_list ws" using assms w(1) by force
  then show "0 < p" using assms w by simp
qed

lemma choice_mem:
  assumes "rng_ok r" "xs \<noteq> []"
  shows "fst (choice r xs) \<in> set xs"
proof -
  have u: "0 \<le> r 0" "r 0 < 1" using assms(1) by (simp_all add: rng_ok_def)
  have "r 0 * real (length xs) < 1 * real (length xs)"
    using u assms(2) by (intro mult_strict_right_mono) simp_all
  then have "\<lfloor>r 0 * real (length xs)\<rfloor> < int (length xs)"
    by (simp add: floor_less_iff)
  then have "nat \<lfloor>r 0 * real (length xs)\<rfloor> < length xs"
    using u by (simp add: nat_less_iff)
  then show ?thesis by (simp add: choice_def next_draw_def)
qed

section \<open>Properties of the initializer catalog\<close>

lemma initializer_name_map_nonempty: "initializer_name_map \<noteq> []"
  by (simp add: initializer_name_map_def)

lemma sort_key_eq_Nil: "sort_key f xs = [] \<longleftrightarrow> xs = []"
  by (metis length_0_conv length_sort)

lemma initializer_weights_pos:
  "\<forall>w\<in>set (map (\<lambda>(_, (w, _, _)). w) (sort_key fst initializer_name_map)). 0 < w"
  by (simp add: initializer_name_map_def)

lemma initializer_entries:
  assumes "(name, (w, sf, mk)) \<in> set initializer_name_map"
  shows "(sf = None \<and> (\<exists>i. mk [] = Inr i)) \<or>
     (sf = Some (\<lambda>rng. sample_log_float rng (1/10) 10) \<and> (\<forall>s. \<exists>i. mk [s] = Inr i))"
proof -
  have "mk \<in> {tf_initializers he_normal, tf_initializers he_uniform,
      tf_initializers glorot_normal, tf_initializers glorot_uniform} \<and> sf = None \<or>
    mk \<in> {tf_initializers orthogonal, lambda_random_uniform, lambda_random_normal,
      tf_initializers variance_scaling} \<and>
    sf = Some (\<lambda>rng. sample_log_float rng (1/10) 10)"
    using assms unfolding initializer_name_map_def by (simp, elim disjE conjE) simp_all
  then show ?thesis
    by (elim disjE conjE insertE emptyE)
      (simp_all add: tf_initializers_def lambda_random_uniform_def lambda_random_normal_def)
qed

lemma getitem_mem:
  "k \<in> fst ` set d \<Longrightarrow> \<exists>v. getitem d k = Inr v \<and> (k, v) \<in> set d"
proof -
  assume "k \<in> fst ` set d"
  then obtain v where "map_of d k = Some v"
    by (cases "map_of d k") (auto simp: map_of_eq_None_iff)
  then show ?thesis by (auto simp: getitem_def dest: map_of_SomeD)
qed

lemma sample_log_float_pos: "0 < fst (sample_log_float rng low high)"
  by (simp add: sample_log_float_def split_beta)

lemma rng_ok_sample_log_float: "rng_ok rng \<Longrightarrow> rng_ok (snd (sample_log_float rng low high))"
  by (simp add: sample_log_float_def split_beta rng_ok_uniform)

lemma rng_ok_sample_log_int: "rng_ok rng \<Longrightarrow> rng_ok (snd (sample_log_int rng low high))"
  by (simp add: sample_log_int_def split_beta rng_ok_uniform)

lemma sample_initializer_ok:
  assumes "rng_ok rng"
  shows "\<exists>name param rng' i.
           sample_initializer rng = Inr ((name, param), rng') \<and> rng_ok rng' \<and>
           name \<in> fst ` set initializer_name_map \<and>
           (param = None \<or> (\<exists>s. param = Some s \<and> 0 < s)) \<and>
           get_initializer (name, param) = Inr i"
proof -
  let ?items = "sort_key fst initializer_name_map"
  let ?names = "map fst ?items"
  let ?probs = "normalize (map (\<lambda>(_, (w, _, _)). w) ?items)"
  let ?name = "fst (choice_p rng ?names ?probs)"
  let ?rng1 = "snd (choice_p rng ?names ?probs)"
  have pos: "\<forall>p\<in>set ?probs. 0 < p"
    using initializer_weights_pos by (rule normalize_pos)
  have len: "length ?names = length ?probs" by (simp add: normalize_def)
  have ne: "?probs \<noteq> []"
    by (simp add: normalize_def sort_key_eq_Nil initializer_name_map_nonempty)
  have "?name \<in> set ?names" using choice_p_mem [OF assms ne len pos] .
  then have mem: "?name \<in> fst ` set initializer_name_map" by simp
  from getitem_mem [OF mem] obtain v where v: "getitem initializer_name_map ?name = Inr v"
    "(?name, v) \<in> set initializer_name_map"
    by (elim exE conjE)
  obtain w sf mk where vv: "v = (w, sf, mk)" by (cases v)
  have ok1: "rng_ok ?rng1" using assms by (rule rng_ok_choice_p)
  from initializer_entries [of ?name w sf mk] v(2) vv
  consider (plain) "sf = None" "\<exists>i. mk [] = Inr i"
    | (scaled) "sf = Some (\<lambda>rng. sample_log_float rng (1/10) 10)" "\<forall>s. \<exists>i. mk [s] = Inr i"
    by blast
  then show ?thesis
  proof cases
    case plain
    then obtain i where "mk [] = Inr i" by blast
    then have "sample_initializer rng = Inr ((?name, None), ?rng1) \<and>
        get_initializer (?name, None) = Inr i"
      using v(1) vv plain(1)
      by (simp add: sample_initializer_def get_initializer_def Let_def split_beta bindE_def)
    then show ?thesis using ok1 mem by blast
  next
    case scaled
    let ?s = "fst (sample_log_float ?rng1 (1/10) 10)"
    let ?rng2 = "snd (sample_log_float ?rng1 (1/10) 10)"
    have s: "0 < ?s" by (rule sample_log_float_pos)
    obtain i where "mk [?s] = Inr i" using scaled(2) by blast
    then have "sample_initializer rng = Inr ((?name, Some ?s), ?rng2) \<and>
        get_initializer (?name, Some ?s) = Inr i"
      using v(1) vv scaled(1) s
      by (simp add: sample_initializer_def get_initializer_def Let_def split_beta bindE_def)
    moreover have "rng_ok ?rng2" using ok1 by (rule rng_ok_sample_log_float)
    ultimately show ?thesis using mem s by blast
  qed
qed

lemma sorted_initializers:
  "sort_key fst initializer_name_map =
     [(''glorot_normal'', (2, None, tf_initializers glorot_normal)),
      (''glorot_uniform'', (2, None, tf_initializers glorot_uniform)),
      (''he_normal'', (2, None, tf_initializers he_normal)),
      (''he_uniform'', (2, None, tf_initializers he_uniform)),
      (''orthogonal'', (1, Some (\<lambda>rng. sample_log_float rng (1/10) 10),
                        tf_initializers orthogonal)),
      (''random_normal'', (1, Some (\<lambda>rng. sample_log_float rng (1/10) 10),
                           lambda_random_normal)),
      (''random_uniform'', (1, Some (\<lambda>rng. sample_log_float rng (1/10) 10),
                            lambda_random_uniform)),
      (''truncated_normal'', (1, Some (\<lambda>rng. sample_log_float rng (1/10) 10),
                              lambda_random_normal)),
      (''variance_scaling'', (1, Some (\<lambda>rng. sample_log_float rng (1/10) 10),
                              tf_initializers variance_scaling))]"
  by (simp add: initializer_name_map_def)

lemma sample_initializer_first:
  "r 0 = 0 \<Longrightarrow> sample_initializer r = Inr ((''glorot_normal'', None), \<lambda>i. r (Suc i))"
  by (simp add: sample_initializer_def sorted_initializers normalize_def choice_p_def
      next_draw_def searchsorted_right_def getitem_def initializer_name_map_def bindE_def)

lemma sample_initializer_second:
  "r 0 = 1/5 \<Longrightarrow> sample_initializer r = Inr ((''glorot_uniform'', None), \<lambda>i. r (Suc i))"
  by (simp add: sample_initializer_def sorted_initializers normalize_def choice_p_def
      next_draw_def searchsorted_right_def getitem_def initializer_name_map_def bindE_def)

section \<open>Properties of the core sampler\<close>

lemma snd_choice: "snd (choice r xs) = (\<lambda>i. r (Suc i))"
  by (simp add: choice_def next_draw_def)

lemma snd_sample_log_int: "snd (sample_log_int r low high) = (\<lambda>i. r (Suc i))"
  by (simp add: sample_log_int_def uniform_def next_draw_def)

lemma rng_ok_shift: "rng_ok r \<Longrightarrow> rng_ok (\<lambda>i. r (Suc i))"
  by (simp add: rng_ok_def)

lemma linked_iff:
  assumes "rng_ok r"
  shows "fst (choice r [True, True, True, True, False]) \<longleftrightarrow> r 0 < 4/5"
proof -
  let ?n = "nat \<lfloor>r 0 * 5\<rfloor>"
  have u: "0 \<le> r 0" "r 0 < 1" using assms by (simp_all add: rng_ok_def)
  have "\<lfloor>r 0 * 5\<rfloor> < 5" using u by (simp add: floor_less_iff)
  then have "?n < 5" using u by (simp add: nat_less_iff)
  then have "?n = 0 \<or> ?n = 1 \<or> ?n = 2 \<or> ?n = 3 \<or> ?n = 4" by arith
  then have a: "[True, True, True, True, False] ! ?n \<longleftrightarrow> ?n < 4"
    by (elim disjE) simp_all
  have "?n < 4 \<longleftrightarrow> \<lfloor>r 0 * 5\<rfloor> < 4" using u by (simp add: nat_less_iff)
  also have "\<dots> \<longleftrightarrow> r 0 * 5 < 4" by (simp add: floor_less_iff)
  also have "\<dots> \<longleftrightarrow> r 0 < 4/5" by auto
  finally show ?thesis using a by (simp add: choice_def next_draw_def)
qed

lemma map_of_assign_all:
  "map_of (assign_all ks v args) k = (if k \<in> set ks then Some v else map_of args k)"
  by (induction ks arbitrary: args) (auto simp: update_conv')

lemma sample_initializer_total:
  assumes "rng_ok r"
  obtains c r' where "sample_initializer r = Inr (c, r')" "rng_ok r'"
  using sample_initializer_ok [OF assms] by blast

lemma sample_all_gru:
  assumes "rng_ok r0"
  shows "\<exists>c1 r1 c2 r2 c3 r3 c4 r4 c5 r5 c6 r6.
     sample_initializer r0 = Inr (c1, r1) \<and> sample_initializer r1 = Inr (c2, r2) \<and>
     sample_initializer r2 = Inr (c3, r3) \<and> sample_initializer r3 = Inr (c4, r4) \<and>
     sample_initializer r4 = Inr (c5, r5) \<and> sample_initializer r5 = Inr (c6, r6) \<and>
     rng_ok r6 \<and>
     sample_all gru_keys [(''core_dim'', d)] r0 =
       Inr ([(''core_dim'', d), (''wh'', AInit c1), (''wz'', AInit c2), (''wr'', AInit c3),
             (''uh'', AInit c4), (''uz'', AInit c5), (''ur'', AInit c6)], r6)"
proof -
  obtain c1 r1 where s1: "sample_initializer r0 = Inr (c1, r1)" "rng_ok r1"
    using assms by (rule sample_initializer_total)
  obtain c2 r2 where s2: "sample_initializer r1 = Inr (c2, r2)" "rng_ok r2"
    using s1(2) by (rule sample_initializer_total)
  obtain c3 r3 where s3: "sample_initializer r2 = Inr (c3, r3)" "rng_ok r3"
    using s2(2) by (rule sample_initializer_total)
  obtain c4 r4 where s4: "sample_initializer r3 = Inr (c4, r4)" "rng_ok r4"
    using s3(2) by (rule sample_initializer_total)
  obtain c5 r5 where s5: "sample_initializer r4 = Inr (c5, r5)" "rng_ok r5"
    using s4(2) by (rule sample_initializer_total)
  obtain c6 r6 where s6: "sample_initializer r5 = Inr (c6, r6)" "rng_ok r6"
    using s5(2) by (rule sample_initializer_total)
  have "sample_all gru_keys [(''core_dim'', d)] r0 =
       Inr ([(''core_dim'', d), (''wh'', AInit c1), (''wz'', AInit c2), (''wr'', AInit c3),
             (''uh'', AInit c4), (''uz'', AInit c5), (''ur'', AInit c6)], r6)"
    by (simp add: gru_keys_def s1 s2 s3 s4 s5 s6)
  then show ?thesis using s1 s2 s3 s4 s5 s6 by blast
qed

section \<open>Properties of the initializer materializer\<close>

lemma initializer_names_distinct: "distinct (map fst initializer_name_map)"
  by (simp add: initializer_name_map_def)

lemma getitem_entry:
  "distinct (map fst d) \<Longrightarrow> (k, v) \<in> set d \<Longrightarrow> getitem d k = Inr v"
  by (simp add: getitem_def)

lemma get_initializer_dispatch:
  assumes "(name, (w, sf, mk)) \<in> set initializer_name_map"
  shows "get_initializer (name, None) = mk []"
    and "s \<noteq> 0 \<Longrightarrow> get_initializer (name, Some s) = mk [s]"
    and "get_initializer (name, Some 0) = mk []"
  using getitem_entry [OF initializer_names_distinct assms]
  by (simp_all add: get_initializer_def bindE_def)

lemma truncated_normal_entry:
  "getitem initializer_name_map ''truncated_normal'' =
     Inr (1, Some (\<lambda>rng. sample_log_float rng (1/10) 10), lambda_random_normal)"
  by (simp add: getitem_def initializer_name_map_def)

lemma random_normal_entry:
  "getitem initializer_name_map ''random_normal'' =
     Inr (1, Some (\<lambda>rng. sample_log_float rng (1/10) 10), lambda_random_normal)"
  by (simp add: getitem_def initializer_name_map_def)

lemma truncated_normal_eq_random_normal:
  "get_initializer (''truncated_normal'', arg) = get_initializer (''random_normal'', arg)"
  by (simp add: get_initializer_def truncated_normal_entry random_normal_entry)

lemma truncated_normal_nonzero:
  "s \<noteq> 0 \<Longrightarrow>
   get_initializer (''truncated_normal'', Some s) =
     Inr (Initializer random_normal [] [(''stddev'', s)])"
  by (simp add: get_initializer_def truncated_normal_entry bindE_def lambda_random_normal_def)

section \<open>Properties of the dataset registries\<close>

lemma map_of_populate:
  "map_of (populate entry names registry) k =
     (if k \<in> set names then Some (entry k) else map_of registry k)"
  by (induction names arbitrary: registry) (auto simp: update_conv')

lemma getitem_populate:
  "k \<in> set names \<Longrightarrow> getitem (populate entry names []) k = Inr (entry k)"
  by (simp add: getitem_def map_of_populate)

lemma keys_populate:
  "fst ` set (populate entry names registry) = set names \<union> fst ` set registry"
  by (induction names arbitrary: registry) (auto simp: dom_update)

lemma text_registry_keys:
  "map fst (name_to_text_dataset_map prov) =
     [''imdb_reviews/subwords8kimdb_reviews/bytes'',
      ''tokenized_amazon_reviews/Books_v1_02_bytes'',
      ''tokenized_amazon_reviews/Camera_v1_00_bytes'',
      ''tokenized_amazon_reviews/Home_v1_00_bytes'',
      ''tokenized_amazon_reviews/Video_v1_00_bytes'',
      ''tokenized_amazon_reviews/Books_v1_02_subwords8k'',
      ''tokenized_amazon_reviews/Camera_v1_00_subwords8k'',
      ''tokenized_amazon_reviews/Home_v1_00_subwords8k'',
      ''tokenized_amazon_reviews/Video_v1_00_subwords8k'']"
  by (simp add: name_to_text_dataset_map_def text_dataset_names_def)

lemma make_just_train_slots:
  "truthy just_train \<Longrightarrow>
   validation (make_just_train d just_train) = train (make_just_train d just_train) \<and>
   train_for_eval (make_just_train d just_train) = train (make_just_train d just_train) \<and>
   test (make_just_train d just_train) = train (make_just_train d just_train) \<and>
   train (make_just_train d just_train) = train d"
  by (simp add: make_just_train_def)

lemma get_byte_dataset_just_train:
  assumes "get_byte_dataset prov config name = Inr d" "getitem config ''just_train'' = Inr j"
    "truthy j"
  shows "validation d = train d \<and> train_for_eval d = train d \<and> test d = train d"
  using assms
  by (auto simp: get_byte_dataset_def bindE_def make_just_train_def split: sum.splits)

lemma make_get_word_dataset_just_train:
  assumes "make_get_word_dataset prov name config = Inr d"
    "getitem config ''just_train'' = Inr j" "truthy j"
  shows "validation d = train d \<and> train_for_eval d = train d \<and> test d = train d"
  using assms
  by (auto simp: make_get_word_dataset_def bindE_def make_just_train_def split: sum.splits)

lemma get_char_lm_dataset_just_train:
  assumes "get_char_lm_dataset prov (name, config) = Inr d"
    "getitem config ''just_train'' = Inr j" "truthy j"
  shows "validation d = train d \<and> train_for_eval d = train d \<and> test d = train d"
proof (cases "name \<in> set char_sequence_dataset_names")
  case True
  then have "get_char_lm_dataset prov (name, config) = get_byte_dataset prov config name"
    by (simp add: get_char_lm_dataset_def name_to_char_sequence_dataset_map_def
        getitem_populate bindE_def)
  then show ?thesis using assms get_byte_dataset_just_train by metis
next
  case False
  then have "get_char_lm_dataset prov (name, config) = Inl KeyError"
    by (simp add: get_char_lm_dataset_def name_to_char_sequence_dataset_map_def
        getitem_def map_of_populate bindE_def)
  then show ?thesis using assms(1) by simp
qed

lemma get_word_lm_dataset_just_train:
  assumes "get_word_lm_dataset prov (name, config) = Inr d"
    "getitem config ''just_train'' = Inr j" "truthy j"
  shows "validation d = train d \<and> train_for_eval d = train d \<and> test d = train d"
proof (cases "name \<in> set word_sequence_dataset_names")
  case True
  then have "get_word_lm_dataset prov (name, config) = make_get_word_dataset prov name config"
    by (simp add: get_word_lm_dataset_def name_to_word_sequence_dataset_map_def
        getitem_populate bindE_def)
  then show ?thesis using assms make_get_word_dataset_just_train by metis
next
  case False
  then have "get_word_lm_dataset prov (name, config) = Inl KeyError"
    by (simp add: get_word_lm_dataset_def name_to_word_sequence_dataset_map_def
        getitem_def map_of_populate bindE_def)
  then show ?thesis using assms(1) by simp
qed

lemma getitem_update_other:
  "k \<noteq> k' \<Longrightarrow> getitem (AList.update k v d) k' = getitem d k'"
  by (simp add: getitem_def update_conv')

lemma get_image_ignores_just_train:
  "get_image prov name (AList.update ''just_train'' v config) cache aug =
   get_image prov name config cache aug"
  by (simp add: get_image_def getitem_update_other)

lemma get_text_classification_ignores_just_train:
  "get_text_classification prov name (AList.update ''just_train'' v config) =
   get_text_classification prov name config"
  by (simp add: get_text_classification_def getitem_update_other)

section \<open>Properties of the augmentation\<close>

lemma bindH_liftE_Inr: "bindH (liftE (Inr v)) f = f v"
  by (rule ext) (simp add: bindH_def liftE_def)

lemma computes_ret: "a < length h \<Longrightarrow> h ! a = Tensor t \<Longrightarrow> computes (ret a) h (Inr t)"
  by (simp add: computes_def ret_def)

lemma computes_apply_op:
  "a < length h \<Longrightarrow> h ! a = Tensor t \<Longrightarrow> computes (apply_op f a) h (f t)"
  by (cases "f t")
     (simp_all add: computes_def apply_op_def bindH_def read_tensor_def liftE_def new_tensor_def)

lemma computes_liftE_bind:
  assumes "\<And>v. r = Inr v \<Longrightarrow> computes (k v) h (g v)"
  shows "computes (bindH (liftE r) k) h (bindE r g)"
proof (cases r)
  case (Inl e)
  then show ?thesis by (simp add: computes_def bindH_def liftE_def bindE_def)
next
  case (Inr v)
  then have 1: "bindH (liftE r) k h = k v h" by (simp add: bindH_def liftE_def)
  have 2: "bindE r g = g v" using Inr by (simp add: bindE_def)
  show ?thesis using assms [OF Inr] unfolding computes_def 1 2 .
qed

lemma computes_bind:
  assumes "computes m h r"
    and "\<And>h' a t. a < length h' \<Longrightarrow> h' ! a = Tensor t \<Longrightarrow> computes (k a) h' (g t)"
  shows "computes (bindH m k) h (bindE r g)"
proof (cases r)
  case (Inl e)
  then have "snd (m h) = Inl e" using assms(1) by (simp add: computes_def)
  then have "snd (bindH m k h) = Inl e" by (cases "m h") (simp add: bindH_def)
  then show ?thesis using Inl by (simp add: computes_def bindE_def)
next
  case (Inr t)
  then obtain a where a: "snd (m h) = Inr a" "a < length (fst (m h))" "fst (m h) ! a = Tensor t"
    using assms(1) by (auto simp: computes_def)
  have 1: "bindH m k h = k a (fst (m h))" using a(1) by (cases "m h") (simp add: bindH_def)
  have 2: "bindE r g = g t" using Inr by (simp add: bindE_def)
  show ?thesis using assms(2) [OF a(2,3)] unfolding computes_def 1 2 .
qed

lemma computes_if:
  "(c \<Longrightarrow> computes m h r) \<Longrightarrow> (\<not> c \<Longrightarrow> computes m' h r') \<Longrightarrow>
   computes (if c then m else m') h (if c then r else r')"
  by simp

text \<open>
  The statements of \<^verbatim>\<open>augment\<close> on the store compute the tensor, or raise the error,
  that the pipeline on tensors gives.
\<close>

lemma computes_augmentations:
  assumes "a < length h" "h ! a = Tensor t"
  shows "computes (augmentations tf cfg a t) h (augmented_tensor tf cfg t)"
  unfolding augmentations_def augmented_tensor_def
  by (intro computes_liftE_bind computes_if computes_bind computes_apply_op computes_ret;
      (rule assms | assumption))

lemma augmented_image_run:
  assumes "example < length h" "h ! example = Example entries"
    "getitem entries ''image'' = Inr a" "a < length h" "h ! a = Tensor t"
  shows "augmented_image tf cfg example h = augmentations tf cfg a t h"
  using assms
  by (simp add: augmented_image_def bindH_def read_example_def liftE_def read_tensor_def)

lemma grows_ret: "grows (ret x)"
  by (simp add: grows_def ret_def)

lemma grows_liftE: "grows (liftE r)"
  by (simp add: grows_def liftE_def)

lemma grows_read_example: "grows (read_example a)"
  by (simp add: grows_def read_example_def)

lemma grows_read_tensor: "grows (read_tensor a)"
  by (simp add: grows_def read_tensor_def)

lemma grows_new_tensor: "grows (new_tensor t)"
  by (simp add: grows_def new_tensor_def)

lemma grows_bindH:
  assumes "grows m" and "\<And>x. grows (f x)"
  shows "grows (bindH m f)"
  unfolding grows_def
proof
  fix h
  obtain h1 r where m: "m h = (h1, r)" by (cases "m h")
  obtain ys where h1: "h1 = h @ ys" using assms(1) m unfolding grows_def by (metis fst_conv)
  show "\<exists>new. fst (bindH m f h) = h @ new"
  proof (cases r)
    case (Inl e)
    then show ?thesis using m h1 by (simp add: bindH_def)
  next
    case (Inr x)
    obtain zs where "fst (f x h1) = h1 @ zs" using assms(2) [of x] unfolding grows_def by blast
    then show ?thesis using m h1 Inr by (simp add: bindH_def)
  qed
qed

lemma grows_if: "grows m \<Longrightarrow> grows m' \<Longrightarrow> grows (if c then m else m')"
  by simp

lemma grows_apply_op: "grows (apply_op f a)"
  unfolding apply_op_def
  by (intro grows_bindH grows_read_tensor grows_liftE grows_new_tensor)

lemma grows_augmented_image: "grows (augmented_image tf cfg example)"
  unfolding augmented_image_def augmentations_def
  by (intro grows_bindH grows_if grows_read_example grows_read_tensor grows_liftE
      grows_apply_op grows_ret)

lemma augmented_image_needs_image:
  assumes "example < length h" "h ! example = Example entries"
    "augmented_image tf cfg example h = (h1, Inr img)"
  shows "''image'' \<in> fst ` set entries"
proof (rule ccontr)
  assume "''image'' \<notin> fst ` set entries"
  then have "map_of entries ''image'' = None"
    by (simp add: map_of_eq_None_iff)
  then have "getitem entries ''image'' = Inl KeyError"
    by (simp add: getitem_def)
  then have "augmented_image tf cfg example h = (h, Inl KeyError)"
    using assms(1,2) by (simp add: augmented_image_def bindH_def read_example_def liftE_def)
  then show False using assms(3) by simp
qed

lemma augment_run:
  assumes "example < length h" "h ! example = Example entries"
    "augmented_image tf cfg example h = (h1, r1)"
  shows "augment tf cfg example h =
     (case r1 of
        Inl e \<Rightarrow> (h1, Inl e)
      | Inr img \<Rightarrow> (h1 @ [Example (AList.update ''image'' img entries)], Inr (length h1)))"
proof -
  obtain ys where h1: "h1 = h @ ys"
    using grows_augmented_image [of tf cfg example] assms(3) unfolding grows_def
    by (metis fst_conv)
  have ex1: "example < length h1" "h1 ! example = Example entries"
    using assms(1,2) h1 by (simp_all add: nth_append)
  show ?thesis
  proof (cases r1)
    case (Inl e)
    then show ?thesis using assms(3) by (simp add: augment_def bindH_def)
  next
    case (Inr img)
    then show ?thesis using assms(3) ex1
      by (simp add: augment_def bindH_def copy_example_def setitem_def read_example_def ret_def)
  qed
qed

section \<open>Properties of the serialization\<close>

lemma sort_key_fst_unique:
  assumes "distinct (map fst xs)" "set xs = set ys" "distinct (map fst ys)"
  shows "sort_key fst xs = sort_key fst ys"
proof (rule map_sorted_distinct_set_unique [where f = fst])
  have "inj_on fst (set xs)" using assms(1) by (simp add: distinct_map)
  then show "inj_on fst (set (sort_key fst xs) \<union> set (sort_key fst ys))"
    using assms(2) by simp
  show "sorted (map fst (sort_key fst xs))" "sorted (map fst (sort_key fst ys))"
    by (rule sorted_sort_key)+
  show "distinct (map fst (sort_key fst xs))"
    using assms(1) by (simp add: distinct_map)
  show "distinct (map fst (sort_key fst ys))"
    using assms(3) by (simp add: distinct_map)
  show "set (sort_key fst xs) = set (sort_key fst ys)" using assms(2) by simp
qed

lemma pretty_json_dumps_key_order:
  assumes "distinct (map fst xs)" "set xs = set ys" "distinct (map fst ys)"
  shows "pretty_json_dumps float_repr (PDict xs) = pretty_json_dumps float_repr (PDict ys)"
  by (simp add: pretty_json_dumps_def sort_key_fst_unique [OF assms])

lemma pretty_json_dumps_not_a_dict:
  "(\<forall>items. dd \<noteq> PDict items) \<Longrightarrow> pretty_json_dumps float_repr dd = Inl ValueError"
  by (cases dd) (simp_all add: pretty_json_dumps_def)

section \<open>Claims on the scalar samplers\<close>

text \<open>
  C7: \<^verbatim>\<open>sample_bool(rng, p)\<close> raises \<^verbatim>\<open>ValueError\<close> (the invalid-argument error) for every
  \<open>p\<close> outside \<open>[0, 1]\<close>, whatever the state of the random source. For every \<open>p\<close> in
  \<open>[0, 1]\<close> it does not raise and returns a boolean together with the advanced source; the
  boolean is true exactly when the unit variate it consumed lies in the interval \<open>[0, p)\<close>,
  a part of the unit interval \<open>[0, 1)\<close> of length \<open>p\<close>: under a uniform variate the result
  is true with probability \<open>p\<close>.
\<close>

theorem sample_bool_spec:
  "rng_ok rng \<Longrightarrow>
   (p < 0 \<or> 1 < p \<longrightarrow> sample_bool rng p = Inl ValueError) \<and>
   (0 \<le> p \<and> p \<le> 1 \<longrightarrow>
      (\<exists>b rng'. sample_bool rng p = Inr (b, rng') \<and> rng_ok rng' \<and>
                 (b \<longleftrightarrow> rng 0 \<in> {0..<p})) \<and>
      {0..<p} \<subseteq> {0..<1::real})"
proof (intro conjI impI)
  assume "p < 0 \<or> 1 < p"
  then show "sample_bool rng p = Inl ValueError"
    by (auto simp: sample_bool_def)
next
  assume ok: "rng_ok rng" and p: "0 \<le> p \<and> p \<le> 1"
  have u: "0 \<le> rng 0" using ok by (simp add: rng_ok_def)
  have "sample_bool rng p = Inr (rng 0 < p, snd (next_draw rng))"
    using p by (simp add: sample_bool_def uniform_def next_draw_def)
  moreover have "rng_ok (snd (next_draw rng))" using ok by (rule rng_ok_next)
  moreover have "(rng 0 < p) \<longleftrightarrow> rng 0 \<in> {0..<p}" using u by simp
  ultimately show "\<exists>b rng'. sample_bool rng p = Inr (b, rng') \<and> rng_ok rng' \<and>
                 (b \<longleftrightarrow> rng 0 \<in> {0..<p})"
    by blast
next
  assume "0 \<le> p \<and> p \<le> 1"
  then show "{0..<p} \<subseteq> {0..<1::real}" by auto
qed

theorem sample_bool_spec_witness:
  "sample_bool (\<lambda>i. 1/2) 2 = Inl ValueError \<and>
   sample_bool (\<lambda>i. 1/2) (- 1) = Inl ValueError \<and>
   (\<exists>rng'. sample_bool (\<lambda>i. 1/2) (3/4) = Inr (True, rng')) \<and>
   (\<exists>rng'. sample_bool (\<lambda>i. 1/2) (1/4) = Inr (False, rng'))"
  using sample_bool_spec [of "\<lambda>i. 1/2" 2] sample_bool_spec [of "\<lambda>i. 1/2" "- 1"]
    sample_bool_spec [of "\<lambda>i. 1/2" "3/4"] sample_bool_spec [of "\<lambda>i. 1/2" "1/4"]
  by (auto simp add: rng_ok_def)




section \<open>Claims on the recurrent cores\<close>

text \<open>
  C5: \<^verbatim>\<open>sample_rnn_core\<close> draws the core kind and then the link decision from
  \<^verbatim>\<open>[True, True, True, True, False]\<close>; the decision is true exactly when the second
  variate of the source lies in \<open>[0, 4/5)\<close>, so with probability 4/5 under a uniform
  variate. When the kind is \<^verbatim>\<open>"gru"\<close> and the decision is true, one initializer config is
  sampled (after the hidden dimension) and all six slots \<open>wh, wz, wr, uh, uz, ur\<close> hold it.
  When the decision is false, the six slots hold the results of six successive calls of
  \<^verbatim>\<open>sample_initializer\<close>, each on the state of the source the call before left, in the
  order of the keys.
\<close>

theorem sample_rnn_core_gru_links:
  fixes rng :: rng
  defines "core \<equiv> fst (choice rng [''vrnn'', ''gru'', ''lstm''])"
    and "linked \<equiv> fst (choice (snd (choice rng [''vrnn'', ''gru'', ''lstm'']))
                         [True, True, True, True, False])"
    and "r0 \<equiv> (\<lambda>i. rng (Suc (Suc (Suc i))))"
  assumes ok: "rng_ok rng"
  shows
   "(linked \<longleftrightarrow> rng 1 \<in> {0..<4/5}) \<and>
    (core = ''gru'' \<and> linked \<longrightarrow>
       (\<exists>init args rng'.
          sample_initializer r0 = Inr (init, rng') \<and>
          sample_rnn_core rng = Inr ((''gru'', args), rng') \<and>
          (\<forall>k\<in>set gru_keys. map_of args k = Some (AInit init)))) \<and>
    (core = ''gru'' \<and> \<not> linked \<longrightarrow>
       (\<exists>c1 r1 c2 r2 c3 r3 c4 r4 c5 r5 c6 r6 args.
          sample_initializer r0 = Inr (c1, r1) \<and> sample_initializer r1 = Inr (c2, r2) \<and>
          sample_initializer r2 = Inr (c3, r3) \<and> sample_initializer r3 = Inr (c4, r4) \<and>
          sample_initializer r4 = Inr (c5, r5) \<and> sample_initializer r5 = Inr (c6, r6) \<and>
          sample_rnn_core rng = Inr ((''gru'', args), r6) \<and>
          map_of args ''wh'' = Some (AInit c1) \<and> map_of args ''wz'' = Some (AInit c2) \<and>
          map_of args ''wr'' = Some (AInit c3) \<and> map_of args ''uh'' = Some (AInit c4) \<and>
          map_of args ''uz'' = Some (AInit c5) \<and> map_of args ''ur'' = Some (AInit c6)))"
proof (intro conjI impI)
  have ok1: "rng_ok (\<lambda>i. rng (Suc i))" using ok by (rule rng_ok_shift)
  have u: "0 \<le> rng 1" using ok by (simp add: rng_ok_def)
  show "linked \<longleftrightarrow> rng 1 \<in> {0..<4/5}"
    using linked_iff [OF ok1] u by (simp add: linked_def snd_choice)
next
  assume a: "core = ''gru'' \<and> linked"
  have ok0: "rng_ok r0" using ok by (simp add: r0_def rng_ok_def)
  obtain init rng' where s: "sample_initializer r0 = Inr (init, rng')"
    using ok0 by (rule sample_initializer_total)
  let ?d = "fst (sample_log_int (\<lambda>i. rng (Suc (Suc i))) 32 128)"
  let ?args = "assign_all gru_keys (AInit init) [(''core_dim'', AInt ?d)]"
  have "sample_rnn_core rng = Inr ((''gru'', ?args), rng')"
    using a s
    by (simp add: sample_rnn_core_def core_def linked_def r0_def split_beta snd_choice
        snd_sample_log_int bindE_def Let_def)
  moreover have "\<forall>k\<in>set gru_keys. map_of ?args k = Some (AInit init)"
    by (simp add: map_of_assign_all)
  ultimately show "\<exists>init args rng'.
          sample_initializer r0 = Inr (init, rng') \<and>
          sample_rnn_core rng = Inr ((''gru'', args), rng') \<and>
          (\<forall>k\<in>set gru_keys. map_of args k = Some (AInit init))"
    using s by blast
next
  assume a: "core = ''gru'' \<and> \<not> linked"
  have ok0: "rng_ok r0" using ok by (simp add: r0_def rng_ok_def)
  let ?d = "AInt (fst (sample_log_int (\<lambda>i. rng (Suc (Suc i))) 32 128))"
  from sample_all_gru [OF ok0, of ?d]
  obtain c1 r1 c2 r2 c3 r3 c4 r4 c5 r5 c6 r6 where
    s: "sample_initializer r0 = Inr (c1, r1)" "sample_initializer r1 = Inr (c2, r2)"
     "sample_initializer r2 = Inr (c3, r3)" "sample_initializer r3 = Inr (c4, r4)"
     "sample_initializer r4 = Inr (c5, r5)" "sample_initializer r5 = Inr (c6, r6)"
    and all: "sample_all gru_keys [(''core_dim'', ?d)] r0 =
       Inr ([(''core_dim'', ?d), (''wh'', AInit c1), (''wz'', AInit c2), (''wr'', AInit c3),
             (''uh'', AInit c4), (''uz'', AInit c5), (''ur'', AInit c6)], r6)"
    by (elim exE conjE)
  let ?args = "[(''core_dim'', ?d), (''wh'', AInit c1), (''wz'', AInit c2), (''wr'', AInit c3),
             (''uh'', AInit c4), (''uz'', AInit c5), (''ur'', AInit c6)]"
  have run: "sample_rnn_core rng = Inr ((''gru'', ?args), r6)"
    using a all
    by (simp add: sample_rnn_core_def core_def linked_def r0_def split_beta snd_choice
        snd_sample_log_int bindE_def Let_def)
  have m: "map_of ?args ''wh'' = Some (AInit c1)" "map_of ?args ''wz'' = Some (AInit c2)"
    "map_of ?args ''wr'' = Some (AInit c3)" "map_of ?args ''uh'' = Some (AInit c4)"
    "map_of ?args ''uz'' = Some (AInit c5)" "map_of ?args ''ur'' = Some (AInit c6)"
    by simp_all
  show "\<exists>c1 r1 c2 r2 c3 r3 c4 r4 c5 r5 c6 r6 args.
          sample_initializer r0 = Inr (c1, r1) \<and> sample_initializer r1 = Inr (c2, r2) \<and>
          sample_initializer r2 = Inr (c3, r3) \<and> sample_initializer r3 = Inr (c4, r4) \<and>
          sample_initializer r4 = Inr (c5, r5) \<and> sample_initializer r5 = Inr (c6, r6) \<and>
          sample_rnn_core rng = Inr ((''gru'', args), r6) \<and>
          map_of args ''wh'' = Some (AInit c1) \<and> map_of args ''wz'' = Some (AInit c2) \<and>
          map_of args ''wr'' = Some (AInit c3) \<and> map_of args ''uh'' = Some (AInit c4) \<and>
          map_of args ''uz'' = Some (AInit c5) \<and> map_of args ''ur'' = Some (AInit c6)"
    using s run m by blast
qed


theorem sample_rnn_core_gru_links_witness:
  "(\<exists>init args rng'.
      sample_rnn_core (\<lambda>i. if i = 0 then 1/2 else 0) = Inr ((''gru'', args), rng') \<and>
      map_of args ''wh'' = Some (AInit init) \<and> map_of args ''ur'' = Some (AInit init)) \<and>
   (\<exists>args rng'.
      sample_rnn_core (\<lambda>i. if i = 0 then 1/2 else if i = 1 then 9/10
                          else if i = 4 then 1/5 else 0)
        = Inr ((''gru'', args), rng') \<and>
      map_of args ''wh'' = Some (AInit (''glorot_normal'', None)) \<and>
      map_of args ''wz'' = Some (AInit (''glorot_uniform'', None)))"
proof -
  let ?a = "\<lambda>i::nat. if i = 0 then 1/2 else (0::real)"
  let ?b = "\<lambda>i::nat. if i = 0 then 1/2 else if i = 1 then 9/10
                     else if i = 4 then 1/5 else (0::real)"
  have oka: "rng_ok ?a" and okb: "rng_ok ?b" by (simp_all add: rng_ok_def)
  have ca: "fst (choice ?a [''vrnn'', ''gru'', ''lstm'']) = ''gru''"
    and cb: "fst (choice ?b [''vrnn'', ''gru'', ''lstm'']) = ''gru''"
    by (simp_all add: choice_def next_draw_def)
  have la: "fst (choice (snd (choice ?a [''vrnn'', ''gru'', ''lstm'']))
              [True, True, True, True, False])"
    by (simp add: choice_def next_draw_def)
  have lb: "\<not> fst (choice (snd (choice ?b [''vrnn'', ''gru'', ''lstm'']))
              [True, True, True, True, False])"
    by (simp add: choice_def next_draw_def)
  have "\<exists>init args rng'.
      sample_rnn_core ?a = Inr ((''gru'', args), rng') \<and>
      map_of args ''wh'' = Some (AInit init) \<and> map_of args ''ur'' = Some (AInit init)"
    using sample_rnn_core_gru_links [OF oka] ca la by (simp add: gru_keys_def) blast
  moreover have "\<exists>args rng'.
      sample_rnn_core ?b = Inr ((''gru'', args), rng') \<and>
      map_of args ''wh'' = Some (AInit (''glorot_normal'', None)) \<and>
      map_of args ''wz'' = Some (AInit (''glorot_uniform'', None))"
  proof -
    let ?r0 = "\<lambda>i. ?b (Suc (Suc (Suc i)))"
    from sample_rnn_core_gru_links [OF okb] cb lb
    obtain c1 r1 c2 r2 args rng' where
      s1: "sample_initializer ?r0 = Inr (c1, r1)" and s2: "sample_initializer r1 = Inr (c2, r2)"
      and run: "sample_rnn_core ?b = Inr ((''gru'', args), rng')"
      and m: "map_of args ''wh'' = Some (AInit c1)" "map_of args ''wz'' = Some (AInit c2)"
      by auto
    have "sample_initializer ?r0 = Inr ((''glorot_normal'', None), \<lambda>i. ?r0 (Suc i))"
      by (rule sample_initializer_first) simp
    then have c1: "c1 = (''glorot_normal'', None)" and r1: "r1 = (\<lambda>i. ?r0 (Suc i))"
      using s1 by simp_all
    have "sample_initializer r1 = Inr ((''glorot_uniform'', None), \<lambda>i. r1 (Suc i))"
      by (rule sample_initializer_second) (simp add: r1)
    then have c2: "c2 = (''glorot_uniform'', None)" using s2 by simp
    show ?thesis using run m c1 c2 by blast
  qed
  ultimately show ?thesis by blast
qed

text \<open>
  C6: for every random source whose first draw selects \<^verbatim>\<open>"lstm"\<close>, \<^verbatim>\<open>sample_rnn_core\<close>
  returns \<^verbatim>\<open>("lstm", args)\<close> where \<open>args\<close> has exactly the keys \<^verbatim>\<open>"w_gates"\<close>, holding an
  initializer config whose name is a key of the catalog, and \<^verbatim>\<open>"core_dim"\<close>, holding an
  integer in \<open>[32, 128]\<close>; \<^verbatim>\<open>get_rnn_core\<close> on that output does not raise and returns the
  LSTM module.
\<close>

theorem sample_rnn_core_lstm:
  assumes "rng_ok rng" and "fst (choice rng [''vrnn'', ''gru'', ''lstm'']) = ''lstm''"
  shows "\<exists>name param core_dim rng' w.
           sample_rnn_core rng =
             Inr ((''lstm'', [(''w_gates'', AInit (name, param)), (''core_dim'', AInt core_dim)]),
                  rng') \<and>
           name \<in> fst ` set initializer_name_map \<and>
           32 \<le> core_dim \<and> core_dim \<le> 128 \<and>
           get_rnn_core (''lstm'', [(''w_gates'', AInit (name, param)),
                                    (''core_dim'', AInt core_dim)])
             = Inr (LSTM (AInt core_dim) [(''w_gates'', w)])"
proof -
  let ?r2 = "\<lambda>i. rng (Suc (Suc i))"
  have ok2: "rng_ok ?r2" using assms(1) by (simp add: rng_ok_def)
  from sample_initializer_ok [OF ok2]
  obtain name param r3 w where
    s: "sample_initializer ?r2 = Inr ((name, param), r3)" and ok3: "rng_ok r3"
    and mem: "name \<in> fst ` set initializer_name_map"
    and g: "get_initializer (name, param) = Inr w"
    by (elim exE conjE)
  let ?d = "fst (sample_log_int r3 32 128)"
  let ?args = "[(''w_gates'', AInit (name, param)), (''core_dim'', AInt ?d)]"
  have d: "32 \<le> ?d" "?d \<le> 128"
    using sample_log_int_range [OF ok3, of 32 128] by simp_all
  have run: "sample_rnn_core rng = Inr ((''lstm'', ?args), snd (sample_log_int r3 32 128))"
    using assms(2) s
    by (simp add: sample_rnn_core_def split_beta snd_choice bindE_def)
  have get: "get_rnn_core (''lstm'', ?args) = Inr (LSTM (AInt ?d) [(''w_gates'', w)])"
    using g by (simp add: get_rnn_core_def getitem_def bindE_def get_initializer_arg_def)
  show ?thesis using run mem d get by blast
qed

theorem sample_rnn_core_lstm_witness:
  "\<exists>name param core_dim rng' w.
     sample_rnn_core (\<lambda>i. if i = 0 then 9/10 else 0) =
       Inr ((''lstm'', [(''w_gates'', AInit (name, param)), (''core_dim'', AInt core_dim)]),
            rng') \<and>
     32 \<le> core_dim \<and> core_dim \<le> 128 \<and>
     get_rnn_core (''lstm'', [(''w_gates'', AInit (name, param)),
                              (''core_dim'', AInt core_dim)])
       = Inr (LSTM (AInt core_dim) [(''w_gates'', w)])"
proof -
  let ?a = "\<lambda>i::nat. if i = 0 then 9/10 else (0::real)"
  have ok: "rng_ok ?a" by (simp add: rng_ok_def)
  have c: "fst (choice ?a [''vrnn'', ''gru'', ''lstm'']) = ''lstm''"
    by (simp add: choice_def next_draw_def)
  show ?thesis using sample_rnn_core_lstm [OF ok c] by blast
qed

section \<open>Claims on the initializer materializer\<close>

text \<open>
  C4: \<^verbatim>\<open>get_initializer\<close> is claimed to call the constructor with the parameter whenever
  the parameter is not \<^verbatim>\<open>None\<close>. The parameter \<^verbatim>\<open>0.0\<close> is present and is not passed: for
  \<^verbatim>\<open>("orthogonal", 0.0)\<close> the constructor is called without argument, as it is for
  \<^verbatim>\<open>("orthogonal", None)\<close>, and for \<^verbatim>\<open>("random_uniform", 0.0)\<close> the one-parameter lambda is
  called without argument and raises \<^verbatim>\<open>TypeError\<close>. A parameter other than zero is passed.
\<close>

theorem get_initializer_zero_parameter:
  "get_initializer (''orthogonal'', Some 0) = Inr (Initializer orthogonal [] []) \<and>
   get_initializer (''orthogonal'', None) = Inr (Initializer orthogonal [] []) \<and>
   get_initializer (''orthogonal'', Some (1/2)) = Inr (Initializer orthogonal [1/2] []) \<and>
   get_initializer (''random_uniform'', Some 0) = Inl TypeError"
  by (simp add: get_initializer_def initializer_name_map_def getitem_def bindE_def
      tf_initializers_def lambda_random_uniform_def)

text \<open>
  C10: the entries \<^verbatim>\<open>"truncated_normal"\<close> and \<^verbatim>\<open>"random_normal"\<close> hold the same lambda, and
  for every scale both are claimed to call \<^verbatim>\<open>random_normal(stddev=s)\<close>. At the scale \<^verbatim>\<open>0.0\<close>
  neither does: the lambda is called without its argument and raises \<^verbatim>\<open>TypeError\<close>.
\<close>

theorem truncated_normal_zero_scale:
  "get_initializer (''truncated_normal'', Some 0) = Inl TypeError \<and>
   get_initializer (''random_normal'', Some 0) = Inl TypeError"
  by (simp add: get_initializer_def initializer_name_map_def getitem_def bindE_def
      lambda_random_normal_def)

section \<open>Claims on the dataset registries\<close>

text \<open>
  C1: with \<^verbatim>\<open>just_train\<close> true, the bundle a \<^verbatim>\<open>get_*\<close> materializer returns is claimed to
  have all four slots equal to the train pipeline, for every dataset family. The byte-level
  and the word-level materializers do that. The image and the text-classification
  materializers never read the flag: on a provider whose bundle has four different
  pipelines they return the bundle as it is, while the byte-level and word-level
  materializers return the train pipeline in every slot.
\<close>

theorem just_train_ignored_by_image_and_text:
  "get_image_dataset tf four_image_pipelines
     (''mnist'',
      [(''bs'', PInt 8), (''num_train'', PInt 1000), (''num_classes'', PInt 10),
       (''just_train'', PBool True)],
      None)
     = Inr \<lparr>train = 0, validation = 1, train_for_eval = 2, test = 3\<rparr> \<and>
   get_text_dataset four_text_pipelines
     (''tokenized_amazon_reviews/Books_v1_02_bytes'',
      [(''bs'', PInt 8), (''num_train'', PNone), (''max_token'', PInt 8185),
       (''just_train'', PBool True), (''patch_length'', PInt 8)])
     = Inr \<lparr>train = 0, validation = 1, train_for_eval = 2, test = 3\<rparr> \<and>
   get_char_lm_dataset four_text_pipelines
     (''lm1b/bytes'',
      [(''patch_length'', PInt 10), (''batch_size'', PInt 8), (''just_train'', PBool True),
       (''num_train'', PNone)])
     = Inr \<lparr>train = 0, validation = 0, train_for_eval = 0, test = 0\<rparr> \<and>
   get_word_lm_dataset four_text_pipelines
     (''lm1b/subwords8k'',
      [(''patch_length'', PInt 10), (''batch_size'', PInt 8), (''just_train'', PBool True),
       (''num_train'', PNone)])
     = Inr \<lparr>train = 0, validation = 0, train_for_eval = 0, test = 0\<rparr>"
proof (intro conjI)
  show "get_image_dataset tf four_image_pipelines
     (''mnist'',
      [(''bs'', PInt 8), (''num_train'', PInt 1000), (''num_classes'', PInt 10),
       (''just_train'', PBool True)],
      None)
     = Inr \<lparr>train = 0, validation = 1, train_for_eval = 2, test = 3\<rparr>"
    by (simp add: get_image_dataset_def name_to_image_dataset_map_def getitem_def bindE_def
        get_image_def four_image_pipelines_def)
  show "get_text_dataset four_text_pipelines
     (''tokenized_amazon_reviews/Books_v1_02_bytes'',
      [(''bs'', PInt 8), (''num_train'', PNone), (''max_token'', PInt 8185),
       (''just_train'', PBool True), (''patch_length'', PInt 8)])
     = Inr \<lparr>train = 0, validation = 1, train_for_eval = 2, test = 3\<rparr>"
    by (simp add: get_text_dataset_def name_to_text_dataset_map_def text_dataset_names_def
        getitem_populate bindE_def get_text_classification_def getitem_def
        four_text_pipelines_def)
  show "get_char_lm_dataset four_text_pipelines
     (''lm1b/bytes'',
      [(''patch_length'', PInt 10), (''batch_size'', PInt 8), (''just_train'', PBool True),
       (''num_train'', PNone)])
     = Inr \<lparr>train = 0, validation = 0, train_for_eval = 0, test = 0\<rparr>"
    by (simp add: get_char_lm_dataset_def name_to_char_sequence_dataset_map_def
        char_sequence_dataset_names_def getitem_populate bindE_def get_byte_dataset_def
        getitem_def four_text_pipelines_def make_just_train_def)
  show "get_word_lm_dataset four_text_pipelines
     (''lm1b/subwords8k'',
      [(''patch_length'', PInt 10), (''batch_size'', PInt 8), (''just_train'', PBool True),
       (''num_train'', PNone)])
     = Inr \<lparr>train = 0, validation = 0, train_for_eval = 0, test = 0\<rparr>"
    by (simp add: get_word_lm_dataset_def name_to_word_sequence_dataset_map_def
        word_sequence_dataset_names_def getitem_populate bindE_def make_get_word_dataset_def
        getitem_def four_text_pipelines_def make_just_train_def)
qed

text \<open>
  C2: the text-classification registry has nine keys, not ten. Its first key is the one
  string that the adjacent literals \<^verbatim>\<open>"imdb_reviews/subwords8k"\<close> and
  \<^verbatim>\<open>"imdb_reviews/bytes"\<close> are joined to, and neither of the two names is a key. For every
  key of the registry the materializer is \<^verbatim>\<open>get_text_classification\<close> with the fixed name
  \<^verbatim>\<open>"imdb_reviews/subwords8k"\<close>: that name is what the provider receives as
  \<^verbatim>\<open>dataset_name\<close>, whatever key was selected.
\<close>

theorem text_registry_defect:
  "map fst (name_to_text_dataset_map prov) =
     [''imdb_reviews/subwords8k'' @ ''imdb_reviews/bytes'',
      ''tokenized_amazon_reviews/Books_v1_02_bytes'',
      ''tokenized_amazon_reviews/Camera_v1_00_bytes'',
      ''tokenized_amazon_reviews/Home_v1_00_bytes'',
      ''tokenized_amazon_reviews/Video_v1_00_bytes'',
      ''tokenized_amazon_reviews/Books_v1_02_subwords8k'',
      ''tokenized_amazon_reviews/Camera_v1_00_subwords8k'',
      ''tokenized_amazon_reviews/Home_v1_00_subwords8k'',
      ''tokenized_amazon_reviews/Video_v1_00_subwords8k''] \<and>
   length (name_to_text_dataset_map prov) = 9 \<and>
   distinct (map fst (name_to_text_dataset_map prov)) \<and>
   ''imdb_reviews/subwords8k'' \<notin> fst ` set (name_to_text_dataset_map prov) \<and>
   ''imdb_reviews/bytes'' \<notin> fst ` set (name_to_text_dataset_map prov) \<and>
   (\<forall>name \<in> fst ` set (name_to_text_dataset_map prov).
      get_text_dataset prov (name, config) =
        get_text_classification prov ''imdb_reviews/subwords8k'' config \<and>
      (\<forall>bs num_train patch_length.
         getitem config ''bs'' = Inr bs \<and> getitem config ''num_train'' = Inr num_train \<and>
         getitem config ''patch_length'' = Inr patch_length \<longrightarrow>
         get_text_dataset prov (name, config) =
           Inr (prov [(''dataset_name'', PStr ''imdb_reviews/subwords8k''),
                      (''batch_size'', bs), (''num_train'', num_train),
                      (''patch_length'', patch_length), (''cache_dataset'', PBool True),
                      (''num_per_valid'', PInt 3000)])))"
proof -
  have keys: "map fst (name_to_text_dataset_map prov) =
     [''imdb_reviews/subwords8kimdb_reviews/bytes'',
      ''tokenized_amazon_reviews/Books_v1_02_bytes'',
      ''tokenized_amazon_reviews/Camera_v1_00_bytes'',
      ''tokenized_amazon_reviews/Home_v1_00_bytes'',
      ''tokenized_amazon_reviews/Video_v1_00_bytes'',
      ''tokenized_amazon_reviews/Books_v1_02_subwords8k'',
      ''tokenized_amazon_reviews/Camera_v1_00_subwords8k'',
      ''tokenized_amazon_reviews/Home_v1_00_subwords8k'',
      ''tokenized_amazon_reviews/Video_v1_00_subwords8k'']"
    by (rule text_registry_keys)
  have len: "length (name_to_text_dataset_map prov) = 9"
    using arg_cong [OF keys, of length] by simp
  have dist: "distinct (map fst (name_to_text_dataset_map prov))"
    unfolding keys by simp
  have set_eq: "fst ` set (name_to_text_dataset_map prov) = set text_dataset_names"
    by (simp add: name_to_text_dataset_map_def keys_populate)
  have no1: "''imdb_reviews/subwords8k'' \<notin> fst ` set (name_to_text_dataset_map prov)"
    unfolding set_eq by (simp add: text_dataset_names_def)
  have no2: "''imdb_reviews/bytes'' \<notin> fst ` set (name_to_text_dataset_map prov)"
    unfolding set_eq by (simp add: text_dataset_names_def)
  have mat: "get_text_dataset prov (name, config) =
        get_text_classification prov ''imdb_reviews/subwords8k'' config"
    if "name \<in> fst ` set (name_to_text_dataset_map prov)" for name
    using that unfolding set_eq
    by (simp add: get_text_dataset_def name_to_text_dataset_map_def getitem_populate bindE_def)
  have call: "get_text_classification prov ''imdb_reviews/subwords8k'' config =
           Inr (prov [(''dataset_name'', PStr ''imdb_reviews/subwords8k''),
                      (''batch_size'', bs), (''num_train'', num_train),
                      (''patch_length'', patch_length), (''cache_dataset'', PBool True),
                      (''num_per_valid'', PInt 3000)])"
    if "getitem config ''bs'' = Inr bs \<and> getitem config ''num_train'' = Inr num_train \<and>
         getitem config ''patch_length'' = Inr patch_length" for bs num_train patch_length
    using that by (simp add: get_text_classification_def bindE_def)
  show ?thesis
    using keys len dist no1 no2 mat call by simp
qed

theorem text_registry_defect_witness:
  "''tokenized_amazon_reviews/Home_v1_00_bytes''
     \<in> fst ` set (name_to_text_dataset_map four_text_pipelines) \<and>
   get_text_dataset four_text_pipelines
     (''tokenized_amazon_reviews/Home_v1_00_bytes'',
      [(''bs'', PInt 8), (''num_train'', PNone), (''max_token'', PInt 8185),
       (''just_train'', PBool False), (''patch_length'', PInt 8)])
   = Inr (four_text_pipelines
            [(''dataset_name'', PStr ''imdb_reviews/subwords8k''),
             (''batch_size'', PInt 8), (''num_train'', PNone),
             (''patch_length'', PInt 8), (''cache_dataset'', PBool True),
             (''num_per_valid'', PInt 3000)])"
proof -
  let ?config = "[(''bs'', PInt 8), (''num_train'', PNone), (''max_token'', PInt 8185),
       (''just_train'', PBool False), (''patch_length'', PInt 8)]"
  have mem: "''tokenized_amazon_reviews/Home_v1_00_bytes''
     \<in> fst ` set (name_to_text_dataset_map four_text_pipelines)"
    by (simp add: name_to_text_dataset_map_def keys_populate text_dataset_names_def)
  have g: "getitem ?config ''bs'' = Inr (PInt 8) \<and> getitem ?config ''num_train'' = Inr PNone \<and>
         getitem ?config ''patch_length'' = Inr (PInt 8)"
    by (simp add: getitem_def)
  show ?thesis
    using text_registry_defect [of four_text_pipelines ?config] mem g by blast
qed

section \<open>Claims on the augmentation\<close>

text \<open>
  C9: for every augmentation config \<open>cfg\<close> and every example record in the store, the
  transformation \<^verbatim>\<open>get_augmentation(cfg)\<close> only adds objects to the store: every object
  the caller can reach is as it was, and the example record still holds the same fields
  with the same objects, its image among them. This holds whether the transformation
  returns or raises. When it returns, the result is a new record, at an address that was
  not in use: a copy of the example with the same keys in the same order and the same
  object under every key but \<^verbatim>\<open>"image"\<close>. When the image field of the example holds a
  tensor, the outcome is that of the pipeline of image operations on this tensor: if a
  lookup or an operation of the pipeline raises, the transformation raises the same error,
  and otherwise it returns the copy, whose image field holds the tensor the pipeline
  computes.
\<close>

theorem augment_leaves_example:
  assumes "example < length h" and "h ! example = Example entries"
  shows
   "(\<exists>new. fst (get_augmentation tf cfg example h) = h @ new) \<and>
    fst (get_augmentation tf cfg example h) ! example = Example entries \<and>
    (\<forall>e. snd (get_augmentation tf cfg example h) = Inr e \<longrightarrow>
       length h \<le> e \<and> e < length (fst (get_augmentation tf cfg example h)) \<and>
       (\<exists>img entries'.
          fst (get_augmentation tf cfg example h) ! e = Example entries' \<and>
          entries' = AList.update ''image'' img entries \<and>
          map fst entries' = map fst entries \<and>
          map_of entries' ''image'' = Some img \<and>
          (\<forall>k. k \<noteq> ''image'' \<longrightarrow> map_of entries' k = map_of entries k))) \<and>
    (\<forall>a t. getitem entries ''image'' = Inr a \<and> a < length h \<and> h ! a = Tensor t \<longrightarrow>
       (case augmented_tensor tf cfg t of
          Inl err \<Rightarrow> snd (get_augmentation tf cfg example h) = Inl err
        | Inr t' \<Rightarrow>
            (\<exists>e img. snd (get_augmentation tf cfg example h) = Inr e \<and>
               fst (get_augmentation tf cfg example h) ! e
                 = Example (AList.update ''image'' img entries) \<and>
               img < length (fst (get_augmentation tf cfg example h)) \<and>
               fst (get_augmentation tf cfg example h) ! img = Tensor t')))"
proof -
  obtain h1 r1 where run: "augmented_image tf cfg example h = (h1, r1)"
    by (cases "augmented_image tf cfg example h")
  obtain ys where h1: "h1 = h @ ys"
    using grows_augmented_image [of tf cfg example] run unfolding grows_def
    by (metis fst_conv)
  note aug = augment_run [OF assms run]
  have ex1: "h1 ! example = Example entries" using assms h1 by (simp add: nth_append)
  have grow: "\<exists>new. fst (get_augmentation tf cfg example h) = h @ new"
    using aug h1 by (cases r1) (simp_all add: get_augmentation_def)
  have same: "fst (get_augmentation tf cfg example h) ! example = Example entries"
    using aug ex1 assms(1) h1 by (cases r1) (simp_all add: get_augmentation_def nth_append)
  have copy: "length h \<le> e \<and> e < length (fst (get_augmentation tf cfg example h)) \<and>
       (\<exists>img entries'.
          fst (get_augmentation tf cfg example h) ! e = Example entries' \<and>
          entries' = AList.update ''image'' img entries \<and>
          map fst entries' = map fst entries \<and>
          map_of entries' ''image'' = Some img \<and>
          (\<forall>k. k \<noteq> ''image'' \<longrightarrow> map_of entries' k = map_of entries k))"
    if ret: "snd (get_augmentation tf cfg example h) = Inr e" for e
  proof -
    from ret aug obtain img where r1: "r1 = Inr img"
      by (cases r1) (simp_all add: get_augmentation_def)
    have e: "e = length h1" using ret aug r1 by (simp add: get_augmentation_def)
    have key: "''image'' \<in> fst ` set entries"
      using augmented_image_needs_image [OF assms] run r1 by simp
    have keys: "map fst (AList.update ''image'' img entries) = map fst entries"
      using key by (simp add: update_keys)
    have st: "fst (get_augmentation tf cfg example h) =
        h1 @ [Example (AList.update ''image'' img entries)]"
      using aug r1 by (simp add: get_augmentation_def)
    show ?thesis
      using e h1 keys unfolding st by (simp add: update_conv')
  qed
  have outcome:
    "case augmented_tensor tf cfg t of
       Inl err \<Rightarrow> snd (get_augmentation tf cfg example h) = Inl err
     | Inr t' \<Rightarrow>
         (\<exists>e img. snd (get_augmentation tf cfg example h) = Inr e \<and>
            fst (get_augmentation tf cfg example h) ! e
              = Example (AList.update ''image'' img entries) \<and>
            img < length (fst (get_augmentation tf cfg example h)) \<and>
            fst (get_augmentation tf cfg example h) ! img = Tensor t')"
    if img: "getitem entries ''image'' = Inr a \<and> a < length h \<and> h ! a = Tensor t" for a t
  proof -
    have a: "a < length h" "h ! a = Tensor t" using img by simp_all
    have "augmented_image tf cfg example h = augmentations tf cfg a t h"
      by (rule augmented_image_run [OF assms]) (simp_all add: img)
    then have run': "augmentations tf cfg a t h = (h1, r1)" using run by simp
    have c: "computes (augmentations tf cfg a t) h (augmented_tensor tf cfg t)"
      using a by (rule computes_augmentations)
    show ?thesis
    proof (cases "augmented_tensor tf cfg t")
      case (Inl err)
      then have "r1 = Inl err" using c run' by (simp add: computes_def)
      then show ?thesis using aug Inl by (simp add: get_augmentation_def)
    next
      case (Inr t')
      then obtain b where b: "r1 = Inr b" "b < length h1" "h1 ! b = Tensor t'"
        using c run' by (auto simp: computes_def)
      have st: "get_augmentation tf cfg example h =
          (h1 @ [Example (AList.update ''image'' b entries)], Inr (length h1))"
        using aug b(1) by (simp add: get_augmentation_def)
      have "snd (get_augmentation tf cfg example h) = Inr (length h1) \<and>
            fst (get_augmentation tf cfg example h) ! length h1
              = Example (AList.update ''image'' b entries) \<and>
            b < length (fst (get_augmentation tf cfg example h)) \<and>
            fst (get_augmentation tf cfg example h) ! b = Tensor t'"
        using b(2,3) unfolding st by (simp add: nth_append)
      then show ?thesis using Inr by auto
    qed
  qed
  show ?thesis using grow same copy outcome by blast
qed

theorem augment_leaves_example_witness:
  "fst (get_augmentation example_tf example_config 2 example_heap) ! 2
       = Example [(''image'', 0), (''label'', 1)] \<and>
   (\<exists>e img. snd (get_augmentation example_tf example_config 2 example_heap) = Inr e \<and>
       3 \<le> e \<and>
       fst (get_augmentation example_tf example_config 2 example_heap) ! e
         = Example [(''image'', img), (''label'', 1)] \<and>
       fst (get_augmentation example_tf example_config 2 example_heap) ! img
         = Tensor
             (Applied ''random_contrast'' [PFloat (1/2), PFloat (3/2)]
             (Applied ''random_hue'' [PFloat (1/10)]
             (Applied ''random_saturation'' [PFloat (1/2), PFloat (3/2)]
             (Applied ''random_brightness'' [PFloat (1/10)]
             (Applied ''random_flip_left_right'' []
             (Applied ''random_crop'' [PInt 31, PInt 31, PInt 3] (Raw 10)))))))) \<and>
   snd (get_augmentation example_tf oversized_crop_config 2 example_heap) = Inl ValueError \<and>
   fst (get_augmentation example_tf oversized_crop_config 2 example_heap) ! 2
       = Example [(''image'', 0), (''label'', 1)]"
proof -
  let ?entries = "[(''image'', 0::nat), (''label'', 1)]"
  let ?t = "Applied ''random_contrast'' [PFloat (1/2), PFloat (3/2)]
             (Applied ''random_hue'' [PFloat (1/10)]
             (Applied ''random_saturation'' [PFloat (1/2), PFloat (3/2)]
             (Applied ''random_brightness'' [PFloat (1/10)]
             (Applied ''random_flip_left_right'' []
             (Applied ''random_crop'' [PInt 31, PInt 31, PInt 3] (Raw 10))))))"
  have a: "2 < length example_heap" and b: "example_heap ! 2 = Example ?entries"
    by (simp_all add: example_heap_def)
  have img: "getitem ?entries ''image'' = Inr 0 \<and> 0 < length example_heap \<and>
             example_heap ! 0 = Tensor (Raw 10)"
    by (simp add: getitem_def example_heap_def)
  have len: "length example_heap = 3" by (simp add: example_heap_def)
  have ok: "augmented_tensor example_tf example_config (Raw 10) = Inr ?t"
    by (simp add: augmented_tensor_def example_tf_def example_config_def getitem_def bindE_def
        index_def one_minus_def one_plus_def dim_value_def)
  have bad: "augmented_tensor example_tf oversized_crop_config (Raw 10) = Inl ValueError"
    by (simp add: augmented_tensor_def example_tf_def oversized_crop_config_def getitem_def
        bindE_def index_def dim_value_def)
  note good_run = augment_leaves_example [OF a b, of example_tf example_config]
  note bad_run = augment_leaves_example [OF a b, of example_tf oversized_crop_config]
  have same: "fst (get_augmentation example_tf example_config 2 example_heap) ! 2
       = Example ?entries"
    using good_run by blast
  from good_run img ok obtain e img' where r:
      "snd (get_augmentation example_tf example_config 2 example_heap) = Inr e"
      "fst (get_augmentation example_tf example_config 2 example_heap) ! e
         = Example (AList.update ''image'' img' ?entries)"
      "fst (get_augmentation example_tf example_config 2 example_heap) ! img' = Tensor ?t"
    by (auto split: sum.splits)
  have e: "3 \<le> e" using good_run r(1) len by auto
  have upd: "AList.update ''image'' img' ?entries = [(''image'', img'), (''label'', 1)]"
    by simp
  have raised: "snd (get_augmentation example_tf oversized_crop_config 2 example_heap)
       = Inl ValueError"
    using bad_run img bad by (auto split: sum.splits)
  have same': "fst (get_augmentation example_tf oversized_crop_config 2 example_heap) ! 2
       = Example ?entries"
    using bad_run by blast
  show ?thesis using same r e upd raised same' by auto
qed

section \<open>Claims on the serialization\<close>

text \<open>
  C3: parsing the text of \<^verbatim>\<open>pretty_json_dumps(cfg)\<close> is claimed to give back \<^verbatim>\<open>cfg\<close> for
  every mapping with string keys. The values are written by \<^verbatim>\<open>json.dumps\<close>, the keys are
  not: a key is put between double quotes without any escape. So the mapping with the one
  key \<^verbatim>\<open>a":true,\<close>, line feed, \<^verbatim>\<open>"b\<close> is written as the very text of the mapping with the
  two keys \<^verbatim>\<open>a\<close> and \<^verbatim>\<open>b\<close>, and no parser gives back both.
\<close>

theorem pretty_json_dumps_collision:
  "pretty_json_dumps float_repr one_key
     = Inr (''{'' @ [CHR 0x0A, CHR 0x22] @ ''a'' @ [CHR 0x22] @ '':true,'' @
            [CHR 0x0A, CHR 0x22] @ ''b'' @ [CHR 0x22] @ '':true'' @ [CHR 0x0A] @ ''}'') \<and>
   pretty_json_dumps float_repr two_keys = pretty_json_dumps float_repr one_key \<and>
   two_keys \<noteq> one_key"
  by (simp add: pretty_json_dumps_def one_key_def two_keys_def)

end
